theory Spec2Isabelle
  imports Main
begin

section \<open>JavaScript values used by the frontend\<close>

text \<open>
  Strings are character lists. The string methods the pages call are written out:
  \<open>trim\<close>, \<open>startsWith\<close>, \<open>slice\<close> with one argument, \<open>split\<close> on a
  one-character separator (which never returns the empty array) and \<open>includes\<close> on
  strings (a substring test, here \<open>includes_str\<close>). The white space that \<open>trim\<close>
  strips is the ASCII part of JavaScript's: tab, line feed, vertical tab, form feed,
  carriage return and space; the white space characters beyond ASCII are outside
  the model.
\<close>

definition is_js_space :: "char \<Rightarrow> bool" where
  "is_js_space c = (c \<in> set [CHR 0x09, CHR 0x0A, CHR 0x0B, CHR 0x0C, CHR 0x0D, CHR 0x20])"

definition trim :: "string \<Rightarrow> string" where
  "trim s = rev (dropWhile is_js_space (rev (dropWhile is_js_space s)))"

definition startsWith :: "string \<Rightarrow> string \<Rightarrow> bool" where
  "startsWith s p = (take (length p) s = p)"

definition slice :: "string \<Rightarrow> nat \<Rightarrow> string" where
  "slice s n = drop n s"

fun split :: "string \<Rightarrow> char \<Rightarrow> string list" where
  "split [] sep = [[]]"
| "split (c # cs) sep =
     (if c = sep then [] # split cs sep
      else (case split cs sep of
              [] \<Rightarrow> [[c]]
            | l # ls \<Rightarrow> (c # l) # ls))"

fun includes_str :: "string \<Rightarrow> string \<Rightarrow> bool" where
  "includes_str [] sub = (sub = [])"
| "includes_str (c # cs) sub = (startsWith (c # cs) sub \<or> includes_str cs sub)"

text \<open>The decimal text of a non-negative integer, as a template literal prints it.\<close>

definition digit_char :: "nat \<Rightarrow> char" where
  "digit_char d = ''0123456789'' ! d"

fun string_of_nat :: "nat \<Rightarrow> string" where
  "string_of_nat n =
     (if n < 10 then [digit_char n] else string_of_nat (n div 10) @ [digit_char (n mod 10)])"

declare string_of_nat.simps [simp del]

text \<open>
  An exception value: its \<open>name\<close> (\<open>AbortError\<close>, \<open>TypeError\<close>, \<open>Error\<close>, ...),
  its \<open>message\<close>, and for a failed axios call the \<open>response.data.detail\<close> of the
  server's answer when there is one.
\<close>

record js_error =
  name :: string
  message :: string
  detail :: "string option"

text \<open>\<open>a || b\<close> on an optional string: the empty string and a missing value are falsy.\<close>

definition or_else :: "string option \<Rightarrow> string \<Rightarrow> string" where
  "or_else a b = (case a of None \<Rightarrow> b | Some s \<Rightarrow> if s = [] then b else s)"

text \<open>\<open>a || null\<close> on an optional string and on an optional number.\<close>

definition or_null :: "string option \<Rightarrow> string option" where
  "or_null a = (case a of None \<Rightarrow> None | Some s \<Rightarrow> if s = [] then None else Some s)"

definition or_null_num :: "nat option \<Rightarrow> nat option" where
  "or_null_num a = (case a of None \<Rightarrow> None | Some n \<Rightarrow> if n = 0 then None else Some n)"

text \<open>
  \<open>xs.filter((_, i) => p(i))\<close>: the elements whose index satisfies \<open>p\<close>, in order.
\<close>

fun filter_index :: "(nat \<Rightarrow> bool) \<Rightarrow> nat \<Rightarrow> 'a list \<Rightarrow> 'a list" where
  "filter_index p i [] = []"
| "filter_index p i (x # xs) =
     (if p i then x # filter_index p (Suc i) xs else filter_index p (Suc i) xs)"


section \<open>Evaluation page: benchmark selection\<close>

text \<open>
  The updater that \<open>toggleBenchmark\<close> passes to \<open>setSelectedBenchmarks\<close>:
  \<open>prev.includes(benchmarkId) ? prev.filter(id => id !== benchmarkId) : [...prev, benchmarkId]\<close>.
\<close>

definition toggleBenchmark :: "string \<Rightarrow> string list \<Rightarrow> string list" where
  "toggleBenchmark benchmarkId prev =
     (if benchmarkId \<in> set prev
      then filter (\<lambda>id. id \<noteq> benchmarkId) prev
      else prev @ [benchmarkId])"


section \<open>Notebook editor\<close>

text \<open>A notebook cell; \<open>cell_output\<close> is its \<open>output\<close> field.\<close>

record cell =
  type :: string
  content :: string
  cell_output :: "string option"
  execution_count :: "nat option"

text \<open>A cell as the notebook-file import endpoint returns it; every field may be missing.\<close>

record ipynb_cell =
  ipynb_type :: "string option"
  code :: "string option"
  ipynb_output :: "string option"
  ipynb_execution_count :: "nat option"

text \<open>
  The state of the notebook page that \<open>deleteCell\<close> and \<open>loadIpynbFile\<close> read and
  write, with the \<open>alert\<close> boxes shown so far.
\<close>

record notebook_page =
  cells :: "cell list"
  showOpenModal :: bool
  alerts :: "string list"

definition alert :: "string \<Rightarrow> notebook_page \<Rightarrow> notebook_page" where
  "alert text st = st\<lparr>alerts := alerts st @ [text]\<rparr>"

text \<open>
  \<open>deleteCell(index)\<close>. The answer the user gives to \<open>confirm('Delete this cell?')\<close>
  is the argument \<open>confirmed\<close>; the prompt is shown only when the first test lets the
  call through.
\<close>

definition deleteCell :: "bool \<Rightarrow> nat \<Rightarrow> notebook_page \<Rightarrow> notebook_page" where
  "deleteCell confirmed index st =
     (if length (cells st) = 1 then alert ''Cannot delete the last cell'' st
      else if confirmed then st\<lparr>cells := filter_index (\<lambda>i. i \<noteq> index) 0 (cells st)\<rparr>
      else st)"

definition loadedCell :: "ipynb_cell \<Rightarrow> cell" where
  "loadedCell c =
     \<lparr>type = or_else (ipynb_type c) ''code'',
      content = or_else (code c) [],
      cell_output = or_null (ipynb_output c),
      execution_count = or_null_num (ipynb_execution_count c)\<rparr>"

text \<open>
  \<open>loadIpynbFile(filename)\<close>. \<open>response\<close> is what the GET of
  \<open>/api/ipynb/load/<filename>\<close> gives: the cells of the file, or the exception axios
  throws. \<open>confirmed\<close> is the answer to the confirmation prompt, asked after the
  cells have been fetched and converted.
\<close>

definition loadIpynbFile ::
  "string \<Rightarrow> js_error + ipynb_cell list \<Rightarrow> bool \<Rightarrow> notebook_page \<Rightarrow> notebook_page" where
  "loadIpynbFile filename response confirmed st =
     (case response of
        Inl error \<Rightarrow> alert (''Failed to load file: '' @ or_else (detail error) (message error)) st
      | Inr file_cells \<Rightarrow>
          (let loadedCells = map loadedCell file_cells in
           if confirmed
           then alert (''Loaded '' @ string_of_nat (length loadedCells) @ '' cells from '' @ filename)
                  (st\<lparr>cells := loadedCells, showOpenModal := False\<rparr>)
           else st))"


section \<open>Inference page: the model catalogue\<close>

text \<open>
  A discovered checkpoint: \<open>model_type\<close> and \<open>model_name\<close> are its \<open>type\<close> and
  \<open>name\<close> fields, \<open>step\<close> its training step number.
\<close>

record model_info =
  model_type :: string
  model_name :: string
  path :: string
  step :: int

record message =
  role :: string
  msg_content :: string

text \<open>
  The state of the inference page. \<open>inf_messages\<close> and \<open>inf_isGenerating\<close> are
  the page's \<open>messages\<close> and \<open>isGenerating\<close>. The three sampling sliders are
  left out: their values are copied into the request body and read nowhere else.
\<close>

record inference_page =
  models :: "model_info list"
  selectedModel :: string
  loading :: bool
  error :: string
  inf_messages :: "message list"
  inputText :: string
  inf_isGenerating :: bool

text \<open>The state the page starts in: the initial values of its \<open>useState\<close> calls.\<close>

definition initial_inference_page :: inference_page where
  "initial_inference_page =
     \<lparr>models = [], selectedModel = [], loading = True, error = [], inf_messages = [],
      inputText = [], inf_isGenerating = False\<rparr>"

text \<open>
  \<open>xs.reduce(f)\<close> with no initial value: the first element starts the accumulator; on
  the empty array it throws a TypeError (\<open>None\<close>).
\<close>

fun reduce :: "('a \<Rightarrow> 'a \<Rightarrow> 'a) \<Rightarrow> 'a list \<Rightarrow> 'a option" where
  "reduce f [] = None"
| "reduce f (x # xs) = Some (foldl f x xs)"

text \<open>\<open>models.filter(m => m.type === 'sft')\<close>.\<close>

definition sftModels :: "model_info list \<Rightarrow> model_info list" where
  "sftModels ms = filter (\<lambda>m. model_type m = ''sft'') ms"

text \<open>The callback of the reduction: \<open>(current.step > prev.step) ? current : prev\<close>.\<close>

definition higher_step :: "model_info \<Rightarrow> model_info \<Rightarrow> model_info" where
  "higher_step prev current = (if step current > step prev then current else prev)"

text \<open>
  \<open>loadModels()\<close>. \<open>response\<close> is the outcome of the GET of
  \<open>/api/inference/models\<close>: an exception, or \<open>response.data.models\<close> (possibly
  missing). Any exception in the \<open>try\<close> block ends in the \<open>catch\<close> branch.
\<close>

definition loadModels_failed :: "js_error \<Rightarrow> inference_page \<Rightarrow> inference_page" where
  "loadModels_failed err st = st\<lparr>error := or_else (detail err) ''Failed to load models''\<rparr>"

definition loadModels ::
  "js_error + model_info list option \<Rightarrow> inference_page \<Rightarrow> inference_page" where
  "loadModels response st0 =
     (let st = st0\<lparr>loading := True, error := []\<rparr>;
          st' =
            (case response of
               Inl err \<Rightarrow> loadModels_failed err st
             | Inr None \<Rightarrow>
                 st\<lparr>error := ''No trained models found. Please train a model first.''\<rparr>
             | Inr (Some []) \<Rightarrow>
                 st\<lparr>error := ''No trained models found. Please train a model first.''\<rparr>
             | Inr (Some (m0 # ms)) \<Rightarrow>
                 (let st1 = st\<lparr>models := m0 # ms\<rparr>
                  in if length (sftModels (m0 # ms)) > 0
                     then (case reduce higher_step (sftModels (m0 # ms)) of
                             Some latestModel \<Rightarrow> st1\<lparr>selectedModel := path latestModel\<rparr>
                           | None \<Rightarrow>
                               loadModels_failed
                                 \<lparr>name = ''TypeError'',
                                  message = ''Reduce of empty array with no initial value'',
                                  detail = None\<rparr> st1)
                     else st1\<lparr>selectedModel := path m0\<rparr>))
      in st'\<lparr>loading := False\<rparr>)"


section \<open>Routes and route guards\<close>

record user_data =
  username :: string
  email :: string

datatype page = Login | Register | Dashboard | NotebookPage | ChatPage | EvalPage

text \<open>What a route renders: a page component, or \<open><Navigate to=... />\<close>.\<close>

datatype element = Page page | Navigate string

definition PrivateRoute :: "user_data option \<Rightarrow> element \<Rightarrow> element" where
  "PrivateRoute user children = (case user of Some _ \<Rightarrow> children | None \<Rightarrow> Navigate ''/login'')"

definition PublicRoute :: "user_data option \<Rightarrow> element \<Rightarrow> element" where
  "PublicRoute user children = (case user of Some _ \<Rightarrow> Navigate ''/dashboard'' | None \<Rightarrow> children)"

text \<open>
  The route table of \<open>App\<close>, path pattern and element, in the order of the source, for the
  user the authentication context holds. The second table is the copy of \<open>App.jsx\<close>
  that has no chat and evaluation routes.
\<close>

definition App :: "user_data option \<Rightarrow> (string \<times> element) list" where
  "App user =
     [(''/'', Navigate ''/dashboard''),
      (''/login'', PublicRoute user (Page Login)),
      (''/register'', PublicRoute user (Page Register)),
      (''/dashboard'', PrivateRoute user (Page Dashboard)),
      (''/notebook/:id'', PrivateRoute user (Page NotebookPage)),
      (''/chat'', PrivateRoute user (Page ChatPage)),
      (''/eval'', PrivateRoute user (Page EvalPage))]"

definition App_without_chat_eval :: "user_data option \<Rightarrow> (string \<times> element) list" where
  "App_without_chat_eval user =
     [(''/'', Navigate ''/dashboard''),
      (''/login'', PublicRoute user (Page Login)),
      (''/register'', PublicRoute user (Page Register)),
      (''/dashboard'', PrivateRoute user (Page Dashboard)),
      (''/notebook/:id'', PrivateRoute user (Page NotebookPage))]"

text \<open>The element rendered for a route pattern: the first route of the table with it.\<close>

definition render_route :: "(string \<times> element) list \<Rightarrow> string \<Rightarrow> element option" where
  "render_route routes pattern = map_of routes pattern"


section \<open>Authentication context\<close>

text \<open>
  The state \<open>AuthProvider\<close> works on: its own \<open>user\<close> and \<open>loading\<close>
  (\<open>auth_loading\<close>), the browser's \<open>localStorage\<close> and
  \<open>axios.defaults.headers.common\<close>.
\<close>

record auth_provider =
  user :: "user_data option"
  auth_loading :: bool
  localStorage :: "string \<rightharpoonup> string"
  axios_common :: "string \<rightharpoonup> string"

definition logout :: "auth_provider \<Rightarrow> auth_provider" where
  "logout st =
     st\<lparr>localStorage := (localStorage st)(''token'' := None),
        axios_common := (axios_common st)(''Authorization'' := None),
        user := None\<rparr>"

text \<open>
  \<open>login\<close> and \<open>register\<close>: \<open>response\<close> is the outcome of the POST, an exception
  (which the function lets through, before it has written anything) or the
  \<open>access_token\<close> and \<open>user\<close> of the answer. The result is what the call returns or
  throws, with the state after it.
\<close>

definition store_session :: "string \<Rightarrow> user_data \<Rightarrow> auth_provider \<Rightarrow> auth_provider" where
  "store_session access_token userData st =
     st\<lparr>localStorage := (localStorage st)(''token'' \<mapsto> access_token),
        axios_common := (axios_common st)(''Authorization'' \<mapsto> ''Bearer '' @ access_token),
        user := Some userData\<rparr>"

definition login ::
  "js_error + string \<times> user_data \<Rightarrow> auth_provider \<Rightarrow> (js_error + user_data) \<times> auth_provider" where
  "login response st =
     (case response of
        Inl err \<Rightarrow> (Inl err, st)
      | Inr (access_token, userData) \<Rightarrow> (Inr userData, store_session access_token userData st))"

definition register ::
  "js_error + string \<times> user_data \<Rightarrow> auth_provider \<Rightarrow> (js_error + user_data) \<times> auth_provider" where
  "register response st =
     (case response of
        Inl err \<Rightarrow> (Inl err, st)
      | Inr (access_token, userData) \<Rightarrow> (Inr userData, store_session access_token userData st))"

text \<open>\<open>fetchUser()\<close>, with the outcome of the GET of \<open>/api/auth/me\<close>.\<close>

definition fetchUser :: "js_error + user_data \<Rightarrow> auth_provider \<Rightarrow> auth_provider" where
  "fetchUser response st =
     (case response of
        Inr userData \<Rightarrow> st\<lparr>user := Some userData\<rparr>
      | Inl err \<Rightarrow> logout st)\<lparr>auth_loading := False\<rparr>"

text \<open>
  The effect that runs once when the provider mounts (on page load). A stored token
  that is the empty string is falsy, like a missing one.
\<close>

definition mount :: "js_error + user_data \<Rightarrow> auth_provider \<Rightarrow> auth_provider" where
  "mount me_response st =
     (case localStorage st ''token'' of
        None \<Rightarrow> st\<lparr>auth_loading := False\<rparr>
      | Some token \<Rightarrow>
          if token = [] then st\<lparr>auth_loading := False\<rparr>
          else fetchUser me_response
                 (st\<lparr>axios_common := (axios_common st)(''Authorization'' \<mapsto> ''Bearer '' @ token)\<rparr>))"

text \<open>
  An outgoing request, as far as its headers go. A request made with axios carries the
  common default headers of the moment; a request made with \<open>fetch\<close> carries exactly
  the headers its call site writes.
\<close>

record request =
  url :: string
  headers :: "string \<rightharpoonup> string"

definition axios_request :: "string \<Rightarrow> auth_provider \<Rightarrow> request" where
  "axios_request u st = \<lparr>url = u, headers = axios_common st\<rparr>"

text \<open>\<open>`Bearer ${localStorage.getItem('token')}`\<close>: a missing item prints as \<open>null\<close>.\<close>

definition bearer_from_storage :: "(string \<rightharpoonup> string) \<Rightarrow> string" where
  "bearer_from_storage storage =
     ''Bearer '' @ (case storage ''token'' of None \<Rightarrow> ''null'' | Some t \<Rightarrow> t)"

text \<open>
  The three \<open>fetch\<close> call sites: the chat page's \<open>sendMessage\<close>, the code cell's
  \<open>handleRun\<close> and the inference page's \<open>handleSendMessage\<close>.
\<close>

definition chat_fetch :: "(string \<rightharpoonup> string) \<Rightarrow> request" where
  "chat_fetch storage =
     \<lparr>url = ''/api/chat/completions'',
      headers = [''Content-Type'' \<mapsto> ''application/json'',
                 ''Authorization'' \<mapsto> bearer_from_storage storage]\<rparr>"

definition execute_fetch :: "(string \<rightharpoonup> string) \<Rightarrow> request" where
  "execute_fetch storage =
     \<lparr>url = ''/api/execute/stream'',
      headers = [''Content-Type'' \<mapsto> ''application/json'',
                 ''Authorization'' \<mapsto> bearer_from_storage storage]\<rparr>"

definition inference_fetch :: request where
  "inference_fetch =
     \<lparr>url = ''/api/inference/chat'',
      headers = [''Content-Type'' \<mapsto> ''application/json'']\<rparr>"


section \<open>Evaluation page: running and polling a task\<close>

record eval_task =
  task_id :: string
  model_id :: string
  benchmarks :: "string list"
  status :: string
  progress :: nat

record eval_result =
  result_model_id :: string
  completed_at :: string

text \<open>
  A timer made by \<open>setInterval\<close>: its handle, its period in milliseconds and the task
  its callback polls. \<open>clearInterval\<close> removes it; a removed timer fires no more.
\<close>

record timer =
  handle :: nat
  period_ms :: nat
  polled :: string

text \<open>
  The state of the evaluation page (\<open>eval_selectedModel\<close> is its \<open>selectedModel\<close>),
  the browser's timers and the \<open>alert\<close> boxes shown.
\<close>

record eval_page =
  selectedBenchmarks :: "string list"
  eval_selectedModel :: string
  runningTasks :: "eval_task list"
  results :: "eval_result list"
  timers :: "timer list"
  next_handle :: nat
  eval_alerts :: "string list"

definition setInterval :: "nat \<Rightarrow> string \<Rightarrow> eval_page \<Rightarrow> eval_page" where
  "setInterval ms taskId st =
     st\<lparr>timers := timers st @ [\<lparr>handle = next_handle st, period_ms = ms, polled = taskId\<rparr>],
        next_handle := Suc (next_handle st)\<rparr>"

definition clearInterval :: "nat \<Rightarrow> eval_page \<Rightarrow> eval_page" where
  "clearInterval h st = st\<lparr>timers := filter (\<lambda>t. handle t \<noteq> h) (timers st)\<rparr>"


text \<open>
  \<open>loadResults()\<close>, with the outcome of the GET of \<open>/api/eval/results\<close>: the
  \<open>active\<close> and \<open>cached\<close> lists, or an exception, which is logged and changes
  nothing.
\<close>

definition loadResults ::
  "js_error + eval_result list \<times> eval_result list \<Rightarrow> eval_page \<Rightarrow> eval_page" where
  "loadResults response st =
     (case response of
        Inl err \<Rightarrow> st
      | Inr (active, cached) \<Rightarrow> st\<lparr>results := active @ cached\<rparr>)"

text \<open>\<open>pollTaskStatus(taskId)\<close> starts a timer with a period of 2000 milliseconds.\<close>

definition pollTaskStatus :: "string \<Rightarrow> eval_page \<Rightarrow> eval_page" where
  "pollTaskStatus taskId st = setInterval 2000 taskId st"

text \<open>
  The callback of that timer, for the timer \<open>h\<close> polling \<open>taskId\<close>. \<open>poll\<close> is the
  outcome of the GET of \<open>/api/eval/status/<taskId>\<close>; \<open>reload\<close> is the outcome of
  the results request, made only on the branch that calls \<open>loadResults\<close>.
\<close>

definition poll_callback ::
  "nat \<Rightarrow> string \<Rightarrow> js_error + eval_task \<Rightarrow> js_error + eval_result list \<times> eval_result list \<Rightarrow>
   eval_page \<Rightarrow> eval_page" where
  "poll_callback h taskId poll reload st =
     (case poll of
        Inl err \<Rightarrow> clearInterval h st
      | Inr task \<Rightarrow>
          (let st1 = st\<lparr>runningTasks :=
                         map (\<lambda>t. if task_id t = taskId then task else t) (runningTasks st)\<rparr>
           in if status task = ''completed'' \<or> status task = ''failed''
              then loadResults reload
                     ((clearInterval h st1)
                        \<lparr>runningTasks := filter (\<lambda>t. task_id t \<noteq> taskId) (runningTasks st1)\<rparr>)
              else st1))"

text \<open>One period of the timer \<open>h\<close> elapses: its callback runs if the timer still exists.\<close>

definition tick ::
  "nat \<Rightarrow> js_error + eval_task \<Rightarrow> js_error + eval_result list \<times> eval_result list \<Rightarrow>
   eval_page \<Rightarrow> eval_page" where
  "tick h poll reload st =
     (case find (\<lambda>t. handle t = h) (timers st) of
        None \<Rightarrow> st
      | Some t \<Rightarrow> poll_callback h (polled t) poll reload st)"


text \<open>
  \<open>runEvaluation()\<close>, with the outcome of the POST of \<open>/api/eval/run\<close>: the
  \<open>task_id\<close> of the answer, or an exception.
\<close>

definition runEvaluation :: "js_error + string \<Rightarrow> eval_page \<Rightarrow> eval_page" where
  "runEvaluation response st =
     (if length (selectedBenchmarks st) = 0 \<or> eval_selectedModel st = []
      then st\<lparr>eval_alerts := eval_alerts st @ [''Please select at least one benchmark and a model'']\<rparr>
      else (case response of
              Inl err \<Rightarrow> st\<lparr>eval_alerts := eval_alerts st @ [''Failed to start evaluation'']\<rparr>
            | Inr taskId \<Rightarrow>
                pollTaskStatus taskId
                  (st\<lparr>runningTasks := runningTasks st @
                        [\<lparr>task_id = taskId, model_id = eval_selectedModel st,
                          benchmarks = selectedBenchmarks st, status = ''running'',
                          progress = 0\<rparr>]\<rparr>)))"



section \<open>Streamed responses\<close>

text \<open>
  What \<open>fetch\<close> gives: it rejects with an exception, or resolves with a response that
  has a status code and a body. The body is the list of what the successive
  \<open>reader.read()\<close> calls give, a decoded chunk of text or an exception (an abort, a
  network failure); after the last one the reader reports \<open>done\<close>.
\<close>

datatype read_result = Chunk string | ReadError js_error

datatype fetch_outcome = FetchError js_error | Response nat "read_result list"

text \<open>\<open>response.ok\<close>: the status is in the range 200 to 299.\<close>

definition response_ok :: "nat \<Rightarrow> bool" where
  "response_ok http_status = (200 \<le> http_status \<and> http_status \<le> 299)"

text \<open>
  \<open>updated[updated.length - 1]\<close> changed by \<open>f\<close>. Both pages call it only after
  they have appended the placeholder, so the array is never empty there; on the empty
  array (where the JavaScript would throw) nothing is changed.
\<close>

definition update_last :: "('a \<Rightarrow> 'a) \<Rightarrow> 'a list \<Rightarrow> 'a list" where
  "update_last f xs = (if xs = [] then xs else butlast xs @ [f (last xs)])"


section \<open>Chat page\<close>

record chat_page =
  messages :: "message list"
  input :: string
  isGenerating :: bool

text \<open>
  What the stream loop reads of \<open>JSON.parse(data)\<close>: whether \<open>parsed.error\<close> is
  truthy, and the string at \<open>parsed.choices?.[0]?.delta?.content\<close> if there is one
  (a content that is not a string is read as missing).
  The parser itself is the browser's and is a parameter of the model: it maps the text
  after \<open>data: \<close> to these two readings, or to \<open>None\<close> when \<open>JSON.parse\<close> or a
  property read throws, which the inner \<open>catch\<close> ignores.
\<close>

record chat_event =
  event_error :: bool
  delta_content :: "string option"

type_synonym chat_parser = "string \<Rightarrow> chat_event option"

definition append_content :: "string \<Rightarrow> message list \<Rightarrow> message list" where
  "append_content c prev = update_last (\<lambda>m. m\<lparr>msg_content := msg_content m @ c\<rparr>) prev"

text \<open>
  The \<open>for\<close> loop over the complete lines of one read. \<open>break\<close> leaves this loop
  only: the enclosing \<open>while\<close> loop goes on to the next read.
\<close>

fun chat_lines :: "chat_parser \<Rightarrow> string list \<Rightarrow> chat_page \<Rightarrow> chat_page" where
  "chat_lines parse [] st = st"
| "chat_lines parse (line # lines) st =
     (if startsWith line ''data: ''
      then (let data = slice line 6 in
            if data = ''[DONE]'' then st\<lparr>isGenerating := False\<rparr>
            else (case parse data of
                    None \<Rightarrow> chat_lines parse lines st
                  | Some parsed \<Rightarrow>
                      if event_error parsed then st
                      else (case delta_content parsed of
                              None \<Rightarrow> chat_lines parse lines st
                            | Some c \<Rightarrow>
                                if c = [] then chat_lines parse lines st
                                else chat_lines parse lines
                                       (st\<lparr>messages := append_content c (messages st)\<rparr>))))
      else chat_lines parse lines st)"

text \<open>
  The \<open>while\<close> loop: each chunk is appended to the buffer, the buffer is split at
  line feeds, the last piece is kept as the new buffer and the others are processed.
  The result is the exception that left the loop, if any, and the state.
\<close>

fun chat_reads ::
  "chat_parser \<Rightarrow> read_result list \<Rightarrow> string \<Rightarrow> chat_page \<Rightarrow> js_error option \<times> chat_page" where
  "chat_reads parse [] buffer st = (None, st)"
| "chat_reads parse (ReadError e # rest) buffer st = (Some e, st)"
| "chat_reads parse (Chunk v # rest) buffer st =
     (let lines = split (buffer @ v) CHR 0x0A
      in chat_reads parse rest (last lines) (chat_lines parse (butlast lines) st))"

text \<open>
  \<open>sendMessage()\<close> in its four parts. \<open>chat_begin\<close> is the code before the
  \<open>try\<close>: the user message and the empty assistant message are appended.
  \<open>chat_try\<close> is the \<open>try\<close> block, from the state \<open>chat_begin\<close> leaves: its
  result is the exception thrown, if any, and the state at that moment. \<open>chat_catch\<close>
  is the \<open>catch\<close> block. \<open>net\<close> is what the \<open>fetch\<close> gives.
\<close>

definition userMessage :: "string \<Rightarrow> message" where
  "userMessage text = \<lparr>role = ''user'', msg_content = trim text\<rparr>"

definition assistantMessage :: message where
  "assistantMessage = \<lparr>role = ''assistant'', msg_content = []\<rparr>"

definition chat_begin :: "chat_page \<Rightarrow> chat_page" where
  "chat_begin st =
     st\<lparr>messages := (messages st @ [userMessage (input st)]) @ [assistantMessage],
        input := [], isGenerating := True\<rparr>"

definition chat_try :: "chat_parser \<Rightarrow> fetch_outcome \<Rightarrow> chat_page \<Rightarrow> js_error option \<times> chat_page" where
  "chat_try parse net st1 =
     (case net of
        FetchError e \<Rightarrow> (Some e, st1)
      | Response http_status body \<Rightarrow>
          if \<not> response_ok http_status
          then (Some \<lparr>name = ''Error'', message = ''Failed to get response'', detail = None\<rparr>, st1)
          else chat_reads parse body [] st1)"

definition chat_catch :: "js_error \<Rightarrow> chat_page \<Rightarrow> chat_page" where
  "chat_catch e st =
     (if name e \<noteq> ''AbortError''
      then st\<lparr>messages :=
             update_last
               (\<lambda>m. m\<lparr>msg_content := ''Error: Failed to get response. Please try again.''\<rparr>)
               (messages st)\<rparr>
      else st)"

text \<open>
  The whole function. \<open>storage\<close> is the browser's local storage. The result is the
  request dispatched, with the \<open>messages\<close> of its body (\<open>None\<close> when the function
  returns at its first line), and the state after the \<open>finally\<close> block.
\<close>

definition sendMessage ::
  "chat_parser \<Rightarrow> (string \<rightharpoonup> string) \<Rightarrow> fetch_outcome \<Rightarrow> chat_page \<Rightarrow>
   (request \<times> message list) option \<times> chat_page" where
  "sendMessage parse storage net st =
     (if trim (input st) = [] \<or> isGenerating st then (None, st)
      else
        (let newMessages = messages st @ [userMessage (input st)];
             (thrown, st2) = chat_try parse net (chat_begin st);
             st3 = (case thrown of None \<Rightarrow> st2 | Some e \<Rightarrow> chat_catch e st2)
         in (Some (chat_fetch storage, newMessages), st3\<lparr>isGenerating := False\<rparr>)))"

text \<open>The user types into the text area: \<open>setInput(e.target.value)\<close>.\<close>

definition setInput :: "string \<Rightarrow> chat_page \<Rightarrow> chat_page" where
  "setInput text st = st\<lparr>input := text\<rparr>"


section \<open>Inference page: chat\<close>

text \<open>
  What \<open>JSON.parse\<close> gives for the text after \<open>data: \<close> on the inference page: a
  SyntaxError (\<open>Invalid_json\<close>), the value \<open>null\<close>, whose property read throws a
  TypeError (\<open>Null_json\<close>), or an object read at three places: the text of
  \<open>data.error\<close> when it is truthy, whether \<open>data.done\<close> is truthy, and
  \<open>data.token\<close> when it is a string. The parser is a parameter of the model.
\<close>

datatype inference_event =
  Invalid_json
| Null_json
| Event (ev_error: "string option") (ev_done: bool) (ev_token: "string option")

type_synonym inference_parser = "string \<Rightarrow> inference_event"

text \<open>
  The \<open>for\<close> loop over the lines of one chunk, on the text accumulated so far
  (\<open>assistantContent\<close>) and the state. The first component of the result is the
  exception that left the loop, if any.
\<close>

fun inference_lines ::
  "inference_parser \<Rightarrow> message list \<Rightarrow> string list \<Rightarrow> string \<Rightarrow> inference_page \<Rightarrow>
   js_error option \<times> string \<times> inference_page" where
  "inference_lines parse newMessages [] assistantContent st = (None, assistantContent, st)"
| "inference_lines parse newMessages (line # lines) assistantContent st =
     (if startsWith line ''data: ''
      then (case parse (slice line 6) of
              Invalid_json \<Rightarrow> inference_lines parse newMessages lines assistantContent st
            | Null_json \<Rightarrow>
                (Some \<lparr>name = ''TypeError'',
                       message = ''Cannot read properties of null'', detail = None\<rparr>,
                 assistantContent, st)
            | Event err fin tok \<Rightarrow>
                (case err of
                   Some text \<Rightarrow>
                     (Some \<lparr>name = ''Error'', message = text, detail = None\<rparr>,
                      assistantContent, st)
                 | None \<Rightarrow>
                     if fin then (None, assistantContent, st)
                     else (case tok of
                             None \<Rightarrow> inference_lines parse newMessages lines assistantContent st
                           | Some t \<Rightarrow>
                               if t = []
                               then inference_lines parse newMessages lines assistantContent st
                               else inference_lines parse newMessages lines (assistantContent @ t)
                                      (st\<lparr>inf_messages := newMessages @
                                            [\<lparr>role = ''assistant'',
                                              msg_content = assistantContent @ t\<rparr>]\<rparr>))))
      else inference_lines parse newMessages lines assistantContent st)"

text \<open>The \<open>while\<close> loop: every chunk is split at line feeds on its own.\<close>

fun inference_reads ::
  "inference_parser \<Rightarrow> message list \<Rightarrow> read_result list \<Rightarrow> string \<Rightarrow> inference_page \<Rightarrow>
   js_error option \<times> inference_page" where
  "inference_reads parse newMessages [] assistantContent st = (None, st)"
| "inference_reads parse newMessages (ReadError e # rest) assistantContent st = (Some e, st)"
| "inference_reads parse newMessages (Chunk v # rest) assistantContent st =
     (case inference_lines parse newMessages (split v CHR 0x0A) assistantContent st of
        (Some e, content', st') \<Rightarrow> (Some e, st')
      | (None, content', st') \<Rightarrow> inference_reads parse newMessages rest content' st')"

definition unsupported_text :: string where
  "unsupported_text =
     ''Web-based inference is not available on this ARM64/CPU server. Please use the nanochat CLI: cd /var/www/gpt2/nanochat && source .venv/bin/activate && python -m scripts.chat_cli -i sft''"

text \<open>
  \<open>handleSendMessage()\<close> in its parts, as for the chat page: the code before the
  \<open>try\<close>, the \<open>try\<close> block (which also needs \<open>newMessages\<close>) and the
  \<open>catch\<close> block.
\<close>

definition inference_begin :: "inference_page \<Rightarrow> inference_page" where
  "inference_begin st =
     st\<lparr>inf_messages := (inf_messages st @ [userMessage (inputText st)]) @ [assistantMessage],
        inputText := [], inf_isGenerating := True\<rparr>"

definition inference_try ::
  "inference_parser \<Rightarrow> message list \<Rightarrow> fetch_outcome \<Rightarrow> inference_page \<Rightarrow>
   js_error option \<times> inference_page" where
  "inference_try parse newMessages net st1 =
     (case net of
        FetchError e \<Rightarrow> (Some e, st1)
      | Response http_status body \<Rightarrow>
          if \<not> response_ok http_status
          then (Some \<lparr>name = ''Error'',
                      message = ''HTTP error! status: '' @ string_of_nat http_status,
                      detail = None\<rparr>, st1)
          else inference_reads parse newMessages body [] st1)"

definition inference_catch ::
  "message list \<Rightarrow> js_error \<Rightarrow> inference_page \<Rightarrow> inference_page" where
  "inference_catch newMessages err st =
     (if name err = ''AbortError'' then st
      else (if message err \<noteq> [] \<and> includes_str (message err) ''503''
            then st\<lparr>error := unsupported_text\<rparr>
            else st\<lparr>error := or_else (Some (message err)) ''Failed to generate response''\<rparr>)
           \<lparr>inf_messages := newMessages\<rparr>)"

text \<open>
  The whole function. The result is the request dispatched, with the \<open>messages\<close> and
  \<open>model\<close> of its body (\<open>None\<close> when the function returns at one of its first two
  lines), and the state after the \<open>finally\<close> block.
\<close>

definition handleSendMessage ::
  "inference_parser \<Rightarrow> fetch_outcome \<Rightarrow> inference_page \<Rightarrow>
   (request \<times> message list \<times> string) option \<times> inference_page" where
  "handleSendMessage parse net st =
     (if trim (inputText st) = [] \<or> selectedModel st = [] then (None, st)
      else if inf_isGenerating st then (None, st)
      else
        (let newMessages = inf_messages st @ [userMessage (inputText st)];
             (thrown, st2) = inference_try parse newMessages net (inference_begin st);
             st3 = (case thrown of None \<Rightarrow> st2 | Some err \<Rightarrow> inference_catch newMessages err st2)
         in (Some (inference_fetch, newMessages, selectedModel st),
             st3\<lparr>inf_isGenerating := False\<rparr>)))"

text \<open>
  What the page renders below the message list, whatever its state: a notice that web
  chat is disabled with three command lines, a text area and a Send button. In the
  source both controls have \<open>disabled={true}\<close>, the button has no \<open>onClick\<close> and
  the text area no key handler, so nothing rendered calls \<open>handleSendMessage\<close>
  (\<open>send_handler = False\<close>). Above the messages the page shows a fixed server notice
  with the command line, and the \<open>error\<close> text when it is not empty.
\<close>

record input_area =
  disabled_notice :: "string list"
  textarea_disabled :: bool
  textarea_placeholder :: string
  send_disabled :: bool
  send_label :: string
  send_handler :: bool

record inference_view =
  server_notice :: string
  error_banner :: "string option"
  input_controls :: input_area

definition InferencePage :: "inference_page \<Rightarrow> inference_view" where
  "InferencePage st =
     \<lparr>server_notice =
        ''cd /var/www/gpt2/nanochat && source .venv/bin/activate && python -m scripts.chat_cli -i sft'',
      error_banner = (if error st \<noteq> [] then Some (error st) else None),
      input_controls =
        \<lparr>disabled_notice =
           [''$ cd /var/www/gpt2/nanochat'', ''$ source .venv/bin/activate'',
            ''$ python -m scripts.chat_cli -i sft''],
         textarea_disabled = True,
         textarea_placeholder = ''Web chat is disabled on this server - use CLI (see above)'',
         send_disabled = True,
         send_label = ''Send (Disabled)'',
         send_handler = False\<rparr>\<rparr>"


section \<open>The chat stream on the wire\<close>

text \<open>
  Modelled from the spec: the chat completion service, whose code is not among the
  sources, answers a streamed request with server-sent-event frames, one per delta
  chunk, each the text \<open>data: \<close>, a JSON payload on one line and an empty line, and
  ends the stream with the frame whose payload is the literal \<open>[DONE]\<close>. The JSON
  encoding of a delta chunk is the parameter \<open>enc\<close>.
\<close>

definition sse_frame :: "string \<Rightarrow> string" where
  "sse_frame payload = ''data: '' @ payload @ ''\<newline>\<newline>''"

definition chat_stream :: "(string \<Rightarrow> string) \<Rightarrow> string list \<Rightarrow> string" where
  "chat_stream enc cs = concat (map (\<lambda>c. sse_frame (enc c)) cs) @ sse_frame ''[DONE]''"

text \<open>
  Two readings of one line of the chat stream, used to reason about \<open>chat_lines\<close>:
  whether the line makes the \<open>for\<close> loop \<open>break\<close>, and the text it appends to the
  assistant message when it does not.
\<close>

definition stops :: "chat_parser \<Rightarrow> string \<Rightarrow> bool" where
  "stops parse line =
     (startsWith line ''data: '' \<and>
      (slice line 6 = ''[DONE]'' \<or>
       (case parse (slice line 6) of None \<Rightarrow> False | Some parsed \<Rightarrow> event_error parsed)))"

definition delta :: "chat_parser \<Rightarrow> string \<Rightarrow> string" where
  "delta parse line =
     (if startsWith line ''data: ''
      then (case parse (slice line 6) of
              None \<Rightarrow> []
            | Some parsed \<Rightarrow> (case delta_content parsed of None \<Rightarrow> [] | Some c \<Rightarrow> c))
      else [])"


section \<open>Properties: benchmark selection\<close>

text \<open>
  C9. One toggle adds the benchmark identifier to the selection when it is absent and
  removes it when it is present; two toggles of the same identifier in a row give back
  the original selected set.
\<close>

theorem toggleBenchmark_involution:
  "set (toggleBenchmark b prev) = (if b \<in> set prev then set prev - {b} else insert b (set prev)) \<and>
   set (toggleBenchmark b (toggleBenchmark b prev)) = set prev"
  by (auto simp: toggleBenchmark_def)

theorem toggleBenchmark_involution_witness:
  "toggleBenchmark ''arc'' [''mmlu'', ''arc''] = [''mmlu''] \<and>
   set (toggleBenchmark ''arc'' (toggleBenchmark ''arc'' [''mmlu'', ''arc''])) = set [''mmlu'', ''arc'']"
  using toggleBenchmark_involution [of "''arc''" "[''mmlu'', ''arc'']"]
  by (simp add: toggleBenchmark_def)


section \<open>Properties: notebook editor\<close>

lemma filter_index_shift:
  "filter_index (\<lambda>i. i \<noteq> k + n) k xs = take n xs @ drop (Suc n) xs"
proof (induction xs arbitrary: k n)
  case Nil
  then show ?case by simp
next
  case (Cons x xs)
  show ?case
  proof (cases n)
    case 0
    have keep: "filter_index (\<lambda>i. i \<noteq> k) j ys = ys" if "k < j" for j and ys :: "'a list"
      using that by (induction ys arbitrary: j) auto
    from 0 show ?thesis by (simp add: keep)
  next
    case (Suc m)
    have "filter_index (\<lambda>i. i \<noteq> Suc k + m) (Suc k) xs = take m xs @ drop (Suc m) xs"
      by (rule Cons.IH)
    with Suc show ?thesis by simp
  qed
qed

text \<open>
  C8. With exactly one cell, \<open>deleteCell\<close> leaves the cell list as it is, whatever the
  user would answer. With more than one cell, an index in range and a confirmed
  prompt, the result is the list without the cell at that index: the cells before it
  followed by the cells after it, in their order, one cell fewer.
\<close>

theorem deleteCell_spec:
  "(length (cells st) = 1 \<longrightarrow> cells (deleteCell confirmed index st) = cells st) \<and>
   (1 < length (cells st) \<and> index < length (cells st) \<longrightarrow>
      cells (deleteCell True index st) = take index (cells st) @ drop (Suc index) (cells st) \<and>
      length (cells (deleteCell True index st)) = length (cells st) - 1)"
  using filter_index_shift [of 0 index "cells st"]
  by (auto simp: deleteCell_def alert_def)

theorem deleteCell_spec_witness:
  "cells (deleteCell True 1
     \<lparr>cells = [\<lparr>type = ''code'', content = ''a = 1'', cell_output = None, execution_count = None\<rparr>,
               \<lparr>type = ''markdown'', content = ''# Notes'', cell_output = None, execution_count = None\<rparr>,
               \<lparr>type = ''code'', content = ''print(a)'', cell_output = Some ''1'', execution_count = Some 2\<rparr>],
      showOpenModal = False, alerts = []\<rparr>) =
     [\<lparr>type = ''code'', content = ''a = 1'', cell_output = None, execution_count = None\<rparr>,
      \<lparr>type = ''code'', content = ''print(a)'', cell_output = Some ''1'', execution_count = Some 2\<rparr>] \<and>
   cells (deleteCell True 0
     \<lparr>cells = [\<lparr>type = ''code'', content = ''a = 1'', cell_output = None, execution_count = None\<rparr>],
      showOpenModal = False, alerts = []\<rparr>) =
     [\<lparr>type = ''code'', content = ''a = 1'', cell_output = None, execution_count = None\<rparr>]"
  using
    deleteCell_spec [of
      "\<lparr>cells = [\<lparr>type = ''code'', content = ''a = 1'', cell_output = None, execution_count = None\<rparr>,
                 \<lparr>type = ''markdown'', content = ''# Notes'', cell_output = None, execution_count = None\<rparr>,
                 \<lparr>type = ''code'', content = ''print(a)'', cell_output = Some ''1'', execution_count = Some 2\<rparr>],
        showOpenModal = False, alerts = []\<rparr>" True 1]
    deleteCell_spec [of
      "\<lparr>cells = [\<lparr>type = ''code'', content = ''a = 1'', cell_output = None, execution_count = None\<rparr>],
        showOpenModal = False, alerts = []\<rparr>" True 0]
  by simp

text \<open>
  C10. When the file has been fetched and the user declines the confirmation prompt,
  \<open>loadIpynbFile\<close> changes nothing: the cell list and the open-file modal flag (and
  the rest of the state) are as before.
\<close>

theorem loadIpynbFile_declined:
  "cells (loadIpynbFile filename (Inr file_cells) False st) = cells st \<and>
   showOpenModal (loadIpynbFile filename (Inr file_cells) False st) = showOpenModal st \<and>
   loadIpynbFile filename (Inr file_cells) False st = st"
  by (simp add: loadIpynbFile_def)

theorem loadIpynbFile_declined_witness:
  "cells (loadIpynbFile ''intro.ipynb''
     (Inr [\<lparr>ipynb_type = Some ''markdown'', code = Some ''# Intro'', ipynb_output = None,
            ipynb_execution_count = None\<rparr>])
     False
     \<lparr>cells = [\<lparr>type = ''code'', content = ''a = 1'', cell_output = None, execution_count = None\<rparr>],
      showOpenModal = True, alerts = []\<rparr>) =
     [\<lparr>type = ''code'', content = ''a = 1'', cell_output = None, execution_count = None\<rparr>] \<and>
   showOpenModal (loadIpynbFile ''intro.ipynb''
     (Inr [\<lparr>ipynb_type = Some ''markdown'', code = Some ''# Intro'', ipynb_output = None,
            ipynb_execution_count = None\<rparr>])
     False
     \<lparr>cells = [\<lparr>type = ''code'', content = ''a = 1'', cell_output = None, execution_count = None\<rparr>],
      showOpenModal = True, alerts = []\<rparr>)"
  using loadIpynbFile_declined [of "''intro.ipynb''"
    "[\<lparr>ipynb_type = Some ''markdown'', code = Some ''# Intro'', ipynb_output = None,
       ipynb_execution_count = None\<rparr>]"
    "\<lparr>cells = [\<lparr>type = ''code'', content = ''a = 1'', cell_output = None, execution_count = None\<rparr>],
      showOpenModal = True, alerts = []\<rparr>"]
  by simp

text \<open>
  For comparison, the same call with the prompt confirmed replaces the cells and closes
  the modal.
\<close>

lemma loadIpynbFile_confirmed:
  "cells (loadIpynbFile filename (Inr file_cells) True st) = map loadedCell file_cells \<and>
   \<not> showOpenModal (loadIpynbFile filename (Inr file_cells) True st)"
  by (simp add: loadIpynbFile_def alert_def)


section \<open>Properties: the default model of the inference page\<close>

lemma foldl_higher_step_in: "foldl higher_step m ms \<in> set (m # ms)"
  by (induction ms arbitrary: m) (auto simp: higher_step_def)

lemma foldl_higher_step_ge: "step m \<le> step (foldl higher_step m ms)"
proof (induction ms arbitrary: m)
  case Nil
  then show ?case by simp
next
  case (Cons a ms)
  have "step m \<le> step (higher_step m a)" by (simp add: higher_step_def)
  also have "\<dots> \<le> step (foldl higher_step (higher_step m a) ms)" by (rule Cons.IH)
  finally show ?case by simp
qed

lemma foldl_higher_step_max: "m' \<in> set (m # ms) \<Longrightarrow> step m' \<le> step (foldl higher_step m ms)"
proof (induction ms arbitrary: m)
  case Nil
  then show ?case by simp
next
  case (Cons a ms)
  from Cons.prems consider "m' = m" | "m' = a" | "m' \<in> set ms" by auto
  then show ?case
  proof cases
    case 1
    then show ?thesis using foldl_higher_step_ge [of m "a # ms"] by simp
  next
    case 2
    have "step a \<le> step (higher_step m a)" by (simp add: higher_step_def)
    also have "\<dots> \<le> step (foldl higher_step (higher_step m a) ms)" by (rule foldl_higher_step_ge)
    finally show ?thesis using 2 by simp
  next
    case 3
    then have "m' \<in> set (higher_step m a # ms)" by simp
    from Cons.IH [OF this] show ?thesis by simp
  qed
qed

text \<open>
  C4. For a non-empty model list returned by the discovery endpoint, the model selected
  by \<open>loadModels\<close> is, when the list has an sft model, the path of an sft model of the
  list whose step is at least the step of every sft model of the list, and otherwise
  the path of the first model of the list.
\<close>

theorem loadModels_selects:
  assumes "ms \<noteq> []"
  shows "(sftModels ms \<noteq> [] \<longrightarrow>
            (\<exists>m \<in> set ms. model_type m = ''sft'' \<and>
               selectedModel (loadModels (Inr (Some ms)) st) = path m \<and>
               (\<forall>m' \<in> set (sftModels ms). step m' \<le> step m))) \<and>
         (sftModels ms = [] \<longrightarrow> selectedModel (loadModels (Inr (Some ms)) st) = path (hd ms))"
proof (cases "sftModels ms")
  case Nil
  with assms show ?thesis
    by (cases ms) (auto simp: loadModels_def Let_def)
next
  case (Cons s ss)
  let ?best = "foldl higher_step s ss"
  from assms obtain m0 rest where ms: "ms = m0 # rest" by (cases ms) auto
  have sel: "selectedModel (loadModels (Inr (Some ms)) st) = path ?best"
    using Cons by (simp add: ms loadModels_def Let_def)
  have "?best \<in> set (sftModels ms)"
    using foldl_higher_step_in [of s ss] Cons by simp
  then have mem: "?best \<in> set ms" and sft: "model_type ?best = ''sft''"
    by (auto simp: sftModels_def)
  have "\<forall>m' \<in> set (sftModels ms). step m' \<le> step ?best"
    using foldl_higher_step_max [of _ s ss] Cons by simp
  with sel mem sft Cons show ?thesis by auto
qed

theorem loadModels_selects_witness:
  "[\<lparr>model_type = ''base'', model_name = ''d12'', path = ''base/d12/7080'', step = 7080\<rparr>,
    \<lparr>model_type = ''sft'', model_name = ''d12'', path = ''sft/d12/500'', step = 500\<rparr>,
    \<lparr>model_type = ''sft'', model_name = ''d12'', path = ''sft/d12/2000'', step = 2000\<rparr>,
    \<lparr>model_type = ''sft'', model_name = ''d12'', path = ''sft/d12/1500'', step = 1500\<rparr>] \<noteq> [] \<and>
   selectedModel (loadModels (Inr (Some
     [\<lparr>model_type = ''base'', model_name = ''d12'', path = ''base/d12/7080'', step = 7080\<rparr>,
      \<lparr>model_type = ''sft'', model_name = ''d12'', path = ''sft/d12/500'', step = 500\<rparr>,
      \<lparr>model_type = ''sft'', model_name = ''d12'', path = ''sft/d12/2000'', step = 2000\<rparr>,
      \<lparr>model_type = ''sft'', model_name = ''d12'', path = ''sft/d12/1500'', step = 1500\<rparr>]))
     \<lparr>models = [], selectedModel = [], loading = True, error = [], inf_messages = [],
      inputText = [], inf_isGenerating = False\<rparr>) = ''sft/d12/2000''"
  using loadModels_selects [of
    "[\<lparr>model_type = ''base'', model_name = ''d12'', path = ''base/d12/7080'', step = 7080\<rparr>,
      \<lparr>model_type = ''sft'', model_name = ''d12'', path = ''sft/d12/500'', step = 500\<rparr>,
      \<lparr>model_type = ''sft'', model_name = ''d12'', path = ''sft/d12/2000'', step = 2000\<rparr>,
      \<lparr>model_type = ''sft'', model_name = ''d12'', path = ''sft/d12/1500'', step = 1500\<rparr>]"
    "\<lparr>models = [], selectedModel = [], loading = True, error = [], inf_messages = [],
      inputText = [], inf_isGenerating = False\<rparr>"]
  by (simp add: sftModels_def)


section \<open>Properties: route guards\<close>

text \<open>
  C7. With no authenticated user, each of the routes of the dashboard, the notebook
  editor, the chat page and the evaluation page renders a redirect to \<open>/login\<close>; with
  an authenticated user, the login and register routes render a redirect to
  \<open>/dashboard\<close>.
\<close>

theorem route_guards:
  "(\<forall>p \<in> {''/dashboard'', ''/notebook/:id'', ''/chat'', ''/eval''}.
      render_route (App None) p = Some (Navigate ''/login'')) \<and>
   (\<forall>p \<in> {''/login'', ''/register''}.
      render_route (App (Some u)) p = Some (Navigate ''/dashboard''))"
  by (simp add: render_route_def App_def PrivateRoute_def PublicRoute_def)

theorem route_guards_witness:
  "render_route (App None) ''/chat'' = Some (Navigate ''/login'') \<and>
   render_route (App (Some \<lparr>username = ''ann'', email = ''ann@example.org''\<rparr>)) ''/register'' =
     Some (Navigate ''/dashboard'')"
  using route_guards [of "\<lparr>username = ''ann'', email = ''ann@example.org''\<rparr>"]
  by simp

text \<open>
  The guards let the other case through, and the copy of the route table without the
  chat and evaluation routes guards the routes it has in the same way.
\<close>

lemma route_guards_pass:
  "(\<forall>p \<in> {''/login'', ''/register''}. \<exists>pg. render_route (App None) p = Some (Page pg)) \<and>
   (\<forall>p \<in> {''/dashboard'', ''/notebook/:id'', ''/chat'', ''/eval''}.
      \<exists>pg. render_route (App (Some u)) p = Some (Page pg))"
  by (simp add: render_route_def App_def PrivateRoute_def PublicRoute_def)

lemma route_guards_without_chat_eval:
  "(\<forall>p \<in> {''/dashboard'', ''/notebook/:id''}.
      render_route (App_without_chat_eval None) p = Some (Navigate ''/login'')) \<and>
   (\<forall>p \<in> {''/login'', ''/register''}.
      render_route (App_without_chat_eval (Some u)) p = Some (Navigate ''/dashboard'')) \<and>
   render_route (App_without_chat_eval usr) ''/chat'' = None \<and>
   render_route (App_without_chat_eval usr) ''/eval'' = None"
  by (simp add: render_route_def App_without_chat_eval_def PrivateRoute_def PublicRoute_def)



section \<open>Properties: polling an evaluation task\<close>















text \<open>
  Handles are handed out in increasing order, so the handle of the next timer is not
  in use; starting an evaluation and a period of a timer keep it so.
\<close>

lemma fresh_handles_kept:
  assumes "\<forall>t \<in> set (timers st). handle t < next_handle st"
  shows "(\<forall>t \<in> set (timers (runEvaluation response st)).
            handle t < next_handle (runEvaluation response st)) \<and>
         (\<forall>t \<in> set (timers (tick h poll reload st)).
            handle t < next_handle (tick h poll reload st))"
proof
  show "\<forall>t \<in> set (timers (runEvaluation response st)).
          handle t < next_handle (runEvaluation response st)"
    using assms
    by (cases response)
      (auto simp: runEvaluation_def pollTaskStatus_def setInterval_def less_Suc_eq)
next
  have "next_handle (tick h poll reload st) = next_handle st"
    by (auto simp: tick_def poll_callback_def clearInterval_def loadResults_def Let_def
          split: option.splits sum.splits)
  moreover have "set (timers (tick h poll reload st)) \<subseteq> set (timers st)"
    by (auto simp: tick_def poll_callback_def clearInterval_def loadResults_def Let_def
          split: option.splits sum.splits)
  ultimately show "\<forall>t \<in> set (timers (tick h poll reload st)).
      handle t < next_handle (tick h poll reload st)"
    using assms by auto
qed






section \<open>Properties: the authentication token\<close>

text \<open>
  C6. After a successful \<open>login\<close> or \<open>register\<close> the returned token is stored in
  local storage under the key \<open>token\<close>, the user is set, and the header
  \<open>Authorization: Bearer <token>\<close> is on every request the frontend sends from then
  on: on every request made with axios (through the default header) and on the
  \<open>fetch\<close> requests of the chat page and of the code cell (which read the token back
  from local storage). The only other \<open>fetch\<close> in the sources, in the inference
  page's \<open>handleSendMessage\<close>, is never sent: no rendered control calls that
  handler, the text area is disabled, and the input text starts empty and is changed
  by nothing else, so the handler can only return at its first line. On page load, a
  stored non-empty token is put into the axios default header and the user is
  fetched. \<open>logout\<close> removes the stored token and the default header and clears
  the user.
\<close>

theorem token_lifecycle:
  "(\<forall>st' \<in> {snd (login (Inr (tok, u)) st), snd (register (Inr (tok, u)) st)}.
      localStorage st' ''token'' = Some tok \<and>
      user st' = Some u \<and>
      headers (axios_request any_url st') ''Authorization'' = Some (''Bearer '' @ tok) \<and>
      headers (chat_fetch (localStorage st')) ''Authorization'' = Some (''Bearer '' @ tok) \<and>
      headers (execute_fetch (localStorage st')) ''Authorization'' = Some (''Bearer '' @ tok)) \<and>
   (inputText initial_inference_page = [] \<and>
    inputText (loadModels response ist) = inputText ist \<and>
    (inputText ist = [] \<longrightarrow> handleSendMessage parse net ist = (None, ist)) \<and>
    \<not> send_handler (input_controls (InferencePage ist)) \<and>
    textarea_disabled (input_controls (InferencePage ist))) \<and>
   (localStorage st ''token'' = Some tok \<and> tok \<noteq> [] \<longrightarrow>
      axios_common (mount (Inr u) st) ''Authorization'' = Some (''Bearer '' @ tok) \<and>
      user (mount (Inr u) st) = Some u \<and>
      localStorage (mount (Inr u) st) ''token'' = Some tok) \<and>
   localStorage (logout st) ''token'' = None \<and>
   axios_common (logout st) ''Authorization'' = None \<and>
   user (logout st) = None"
proof -
  have auth: "(\<forall>st' \<in> {snd (login (Inr (tok, u)) st), snd (register (Inr (tok, u)) st)}.
      localStorage st' ''token'' = Some tok \<and>
      user st' = Some u \<and>
      headers (axios_request any_url st') ''Authorization'' = Some (''Bearer '' @ tok) \<and>
      headers (chat_fetch (localStorage st')) ''Authorization'' = Some (''Bearer '' @ tok) \<and>
      headers (execute_fetch (localStorage st')) ''Authorization'' = Some (''Bearer '' @ tok)) \<and>
   (localStorage st ''token'' = Some tok \<and> tok \<noteq> [] \<longrightarrow>
      axios_common (mount (Inr u) st) ''Authorization'' = Some (''Bearer '' @ tok) \<and>
      user (mount (Inr u) st) = Some u \<and>
      localStorage (mount (Inr u) st) ''token'' = Some tok) \<and>
   localStorage (logout st) ''token'' = None \<and>
   axios_common (logout st) ''Authorization'' = None \<and>
   user (logout st) = None"
    by (simp add: login_def register_def store_session_def axios_request_def chat_fetch_def
        execute_fetch_def bearer_from_storage_def mount_def fetchUser_def logout_def)
  have start: "inputText initial_inference_page = []"
    by (simp add: initial_inference_page_def)
  have load: "inputText (loadModels response ist) = inputText ist"
    by (simp add: loadModels_def loadModels_failed_def Let_def
          split: sum.splits option.splits list.splits)
  have idle: "inputText ist = [] \<longrightarrow> handleSendMessage parse net ist = (None, ist)"
    by (simp add: handleSendMessage_def trim_def)
  have view: "\<not> send_handler (input_controls (InferencePage ist)) \<and>
      textarea_disabled (input_controls (InferencePage ist))"
    by (simp add: InferencePage_def)
  from auth start load idle view show ?thesis by blast
qed

theorem token_lifecycle_witness:
  "headers (axios_request ''/api/projects/''
      (snd (login (Inr (''tok'', \<lparr>username = ''ann'', email = ''ann@example.org''\<rparr>))
         \<lparr>user = None, auth_loading = False, localStorage = Map.empty,
          axios_common = Map.empty\<rparr>))) ''Authorization'' = Some ''Bearer tok'' \<and>
   (user (mount (Inr \<lparr>username = ''ann'', email = ''ann@example.org''\<rparr>)
      \<lparr>user = None, auth_loading = True, localStorage = [''token'' \<mapsto> ''tok''],
       axios_common = Map.empty\<rparr>) = Some \<lparr>username = ''ann'', email = ''ann@example.org''\<rparr> \<and>
    axios_common (mount (Inr \<lparr>username = ''ann'', email = ''ann@example.org''\<rparr>)
      \<lparr>user = None, auth_loading = True, localStorage = [''token'' \<mapsto> ''tok''],
       axios_common = Map.empty\<rparr>) ''Authorization'' = Some ''Bearer tok'') \<and>
   handleSendMessage (\<lambda>data. Invalid_json) (Response 200 []) initial_inference_page =
      (None, initial_inference_page)"
proof (intro conjI)
  show "headers (axios_request ''/api/projects/''
      (snd (login (Inr (''tok'', \<lparr>username = ''ann'', email = ''ann@example.org''\<rparr>))
         \<lparr>user = None, auth_loading = False, localStorage = Map.empty,
          axios_common = Map.empty\<rparr>))) ''Authorization'' = Some ''Bearer tok''"
    using token_lifecycle [where tok = "''tok''"
      and u = "\<lparr>username = ''ann'', email = ''ann@example.org''\<rparr>"
      and st = "\<lparr>user = None, auth_loading = False, localStorage = Map.empty,
               axios_common = Map.empty\<rparr>"
      and any_url = "''/api/projects/''"]
    by simp
next
  have "user (mount (Inr \<lparr>username = ''ann'', email = ''ann@example.org''\<rparr>)
      \<lparr>user = None, auth_loading = True, localStorage = [''token'' \<mapsto> ''tok''],
       axios_common = Map.empty\<rparr>) = Some \<lparr>username = ''ann'', email = ''ann@example.org''\<rparr> \<and>
    axios_common (mount (Inr \<lparr>username = ''ann'', email = ''ann@example.org''\<rparr>)
      \<lparr>user = None, auth_loading = True, localStorage = [''token'' \<mapsto> ''tok''],
       axios_common = Map.empty\<rparr>) ''Authorization'' = Some ''Bearer tok''"
    using token_lifecycle [where tok = "''tok''"
      and u = "\<lparr>username = ''ann'', email = ''ann@example.org''\<rparr>"
      and st = "\<lparr>user = None, auth_loading = True, localStorage = [''token'' \<mapsto> ''tok''],
               axios_common = Map.empty\<rparr>"]
    by simp
  then show
    "user (mount (Inr \<lparr>username = ''ann'', email = ''ann@example.org''\<rparr>)
      \<lparr>user = None, auth_loading = True, localStorage = [''token'' \<mapsto> ''tok''],
       axios_common = Map.empty\<rparr>) = Some \<lparr>username = ''ann'', email = ''ann@example.org''\<rparr>"
    and
    "axios_common (mount (Inr \<lparr>username = ''ann'', email = ''ann@example.org''\<rparr>)
      \<lparr>user = None, auth_loading = True, localStorage = [''token'' \<mapsto> ''tok''],
       axios_common = Map.empty\<rparr>) ''Authorization'' = Some ''Bearer tok''"
    by simp_all
next
  show "handleSendMessage (\<lambda>data. Invalid_json) (Response 200 []) initial_inference_page =
      (None, initial_inference_page)"
    using token_lifecycle [where ist = initial_inference_page
      and parse = "\<lambda>data. Invalid_json" and net = "Response 200 []"]
    by (simp add: initial_inference_page_def)
qed

text \<open>When the stored token is rejected on page load, the context logs out.\<close>

lemma mount_rejected:
  "localStorage st ''token'' = Some tok \<Longrightarrow> tok \<noteq> [] \<Longrightarrow>
   localStorage (mount (Inl err) st) ''token'' = None \<and>
   axios_common (mount (Inl err) st) ''Authorization'' = None \<and>
   user (mount (Inl err) st) = None"
  by (simp add: mount_def fetchUser_def logout_def)



section \<open>Properties: failures while streaming\<close>

lemma update_last_snoc: "update_last f (xs @ [x]) = xs @ [f x]"
  by (simp add: update_last_def)

lemma update_last_snoc2: "update_last f (xs @ [y, x]) = xs @ [y, f x]"
  using update_last_snoc [of f "xs @ [y]" x] by simp

lemma inference_catch_messages:
  "name err \<noteq> ''AbortError'' \<Longrightarrow> inf_messages (inference_catch newMessages err st) = newMessages"
  by (simp add: inference_catch_def)

text \<open>
  The chat stream loop only ever rewrites the text of the last message: a message
  list that ends with a message of role \<open>r\<close> keeps its other messages and that role.
\<close>

lemma chat_lines_shape:
  "messages st = pre @ [\<lparr>role = r, msg_content = c\<rparr>] \<Longrightarrow>
   \<exists>c'. messages (chat_lines parse ls st) = pre @ [\<lparr>role = r, msg_content = c'\<rparr>]"
proof (induction ls arbitrary: st c)
  case Nil
  then show ?case by simp
next
  case (Cons line ls)
  have app: "messages (st\<lparr>messages := append_content d (messages st)\<rparr>) =
             pre @ [\<lparr>role = r, msg_content = c @ d\<rparr>]" for d
    using Cons.prems by (simp add: append_content_def update_last_snoc)
  show ?case
    using Cons.IH [OF Cons.prems] Cons.IH [OF app] Cons.prems
    by (auto simp: Let_def split: option.splits)
qed

lemma chat_reads_shape:
  "messages st = pre @ [\<lparr>role = r, msg_content = c\<rparr>] \<Longrightarrow>
   \<exists>c'. messages (snd (chat_reads parse body buffer st)) = pre @ [\<lparr>role = r, msg_content = c'\<rparr>]"
proof (induction body arbitrary: st c buffer)
  case Nil
  then show ?case by simp
next
  case (Cons rd body)
  show ?case
  proof (cases rd)
    case (ReadError e)
    with Cons.prems show ?thesis by simp
  next
    case (Chunk v)
    from chat_lines_shape [OF Cons.prems]
    obtain c' where "messages (chat_lines parse (butlast (split (buffer @ v) CHR 0x0A)) st) =
        pre @ [\<lparr>role = r, msg_content = c'\<rparr>]" by blast
    from Cons.IH [OF this] show ?thesis using Chunk by (simp add: Let_def)
  qed
qed

lemma chat_try_shape:
  "messages st = pre @ [\<lparr>role = r, msg_content = c\<rparr>] \<Longrightarrow>
   \<exists>c'. messages (snd (chat_try parse net st)) = pre @ [\<lparr>role = r, msg_content = c'\<rparr>]"
  using chat_reads_shape [of st pre r c]
  by (cases net) (auto simp: chat_try_def)

text \<open>
  C2, as stated, fails on the chat page. The stream delivers one delta chunk and then
  the read fails with a network error: the assistant placeholder is still in the
  message list, with its text replaced by an error text.
\<close>

theorem chat_failure_keeps_placeholder:
  \<open>messages (snd (sendMessage
      (\<lambda>data. if data = ''{"choices":[{"delta":{"content":"Hel"}}]}''
              then Some \<lparr>event_error = False, delta_content = Some ''Hel''\<rparr> else None)
      [''token'' \<mapsto> ''tok'']
      (Response 200
         [Chunk ''data: {"choices":[{"delta":{"content":"Hel"}}]}\<newline>\<newline>'',
          ReadError \<lparr>name = ''TypeError'', message = ''network error'', detail = None\<rparr>])
      \<lparr>messages = [], input = ''hi'', isGenerating = False\<rparr>)) =
     [\<lparr>role = ''user'', msg_content = ''hi''\<rparr>,
      \<lparr>role = ''assistant'',
       msg_content = ''Error: Failed to get response. Please try again.''\<rparr>]\<close>
  by (simp add: sendMessage_def trim_def is_js_space_def userMessage_def assistantMessage_def
      chat_try_def chat_begin_def chat_catch_def response_ok_def append_content_def
      update_last_def startsWith_def slice_def)

text \<open>
  C2, amended. When the \<open>try\<close> block of a send ends with an exception that is not
  an abort: on the inference page the message list becomes the previous messages with
  the user message, without the assistant placeholder; on the chat page the
  placeholder stays in the list after the user message and its text is replaced by
  the fixed text \<open>Error: Failed to get response. Please try again.\<close>
\<close>

theorem streaming_failure:
  "(trim (inputText ist) \<noteq> [] \<and> selectedModel ist \<noteq> [] \<and> \<not> inf_isGenerating ist \<and>
    fst (inference_try parse (inf_messages ist @ [userMessage (inputText ist)]) net
           (inference_begin ist)) = Some err \<and>
    name err \<noteq> ''AbortError'' \<longrightarrow>
      inf_messages (snd (handleSendMessage parse net ist)) =
        inf_messages ist @ [userMessage (inputText ist)]) \<and>
   (trim (input cst) \<noteq> [] \<and> \<not> isGenerating cst \<and>
    fst (chat_try cparse cnet (chat_begin cst)) = Some cerr \<and> name cerr \<noteq> ''AbortError'' \<longrightarrow>
      messages (snd (sendMessage cparse storage cnet cst)) =
        messages cst @ [userMessage (input cst),
          \<lparr>role = ''assistant'',
           msg_content = ''Error: Failed to get response. Please try again.''\<rparr>])"
proof (intro conjI impI)
  assume "trim (inputText ist) \<noteq> [] \<and> selectedModel ist \<noteq> [] \<and> \<not> inf_isGenerating ist \<and>
    fst (inference_try parse (inf_messages ist @ [userMessage (inputText ist)]) net
           (inference_begin ist)) = Some err \<and>
    name err \<noteq> ''AbortError''"
  then show "inf_messages (snd (handleSendMessage parse net ist)) =
      inf_messages ist @ [userMessage (inputText ist)]"
    by (auto simp: handleSendMessage_def Let_def inference_catch_messages split: prod.splits)
next
  assume a: "trim (input cst) \<noteq> [] \<and> \<not> isGenerating cst \<and>
    fst (chat_try cparse cnet (chat_begin cst)) = Some cerr \<and> name cerr \<noteq> ''AbortError''"
  have "messages (chat_begin cst) =
      (messages cst @ [userMessage (input cst)]) @ [\<lparr>role = ''assistant'', msg_content = []\<rparr>]"
    by (simp add: chat_begin_def assistantMessage_def)
  from chat_try_shape [OF this] obtain c' where
    c': "messages (snd (chat_try cparse cnet (chat_begin cst))) =
         (messages cst @ [userMessage (input cst)]) @ [\<lparr>role = ''assistant'', msg_content = c'\<rparr>]"
    by blast
  obtain thrown st2 where r: "chat_try cparse cnet (chat_begin cst) = (thrown, st2)"
    by (cases "chat_try cparse cnet (chat_begin cst)")
  with a have thrown: "thrown = Some cerr" by simp
  from c' r have m2: "messages st2 =
      (messages cst @ [userMessage (input cst)]) @ [\<lparr>role = ''assistant'', msg_content = c'\<rparr>]"
    by simp
  show "messages (snd (sendMessage cparse storage cnet cst)) =
        messages cst @ [userMessage (input cst),
          \<lparr>role = ''assistant'',
           msg_content = ''Error: Failed to get response. Please try again.''\<rparr>]"
    using a r thrown m2
    by (simp add: sendMessage_def Let_def chat_catch_def update_last_snoc2)
qed

theorem streaming_failure_witness:
  \<open>inf_messages (snd (handleSendMessage
      (\<lambda>data. if data = ''{"token": "Hel"}'' then Event None False (Some ''Hel'')
              else Invalid_json)
      (Response 200
         [Chunk ''data: {"token": "Hel"}\<newline>\<newline>'',
          ReadError \<lparr>name = ''TypeError'', message = ''network error'', detail = None\<rparr>])
      \<lparr>models = [], selectedModel = ''sft/d12'', loading = False, error = [],
       inf_messages = [], inputText = ''hi'', inf_isGenerating = False\<rparr>)) =
     [\<lparr>role = ''user'', msg_content = ''hi''\<rparr>] \<and>
   messages (snd (sendMessage (\<lambda>data. None) Map.empty (Response 500 [])
      \<lparr>messages = [], input = ''hi'', isGenerating = False\<rparr>)) =
     [\<lparr>role = ''user'', msg_content = ''hi''\<rparr>,
      \<lparr>role = ''assistant'',
       msg_content = ''Error: Failed to get response. Please try again.''\<rparr>]\<close>
  using streaming_failure [where
      ist = \<open>\<lparr>models = [], selectedModel = ''sft/d12'', loading = False, error = [],
              inf_messages = [], inputText = ''hi'', inf_isGenerating = False\<rparr>\<close>
      and parse = \<open>\<lambda>data. if data = ''{"token": "Hel"}'' then Event None False (Some ''Hel'')
                          else Invalid_json\<close>
      and net = \<open>Response 200
         [Chunk ''data: {"token": "Hel"}\<newline>\<newline>'',
          ReadError \<lparr>name = ''TypeError'', message = ''network error'', detail = None\<rparr>]\<close>
      and err = \<open>\<lparr>name = ''TypeError'', message = ''network error'', detail = None\<rparr>\<close>
      and cst = \<open>\<lparr>messages = [], input = ''hi'', isGenerating = False\<rparr>\<close>
      and cparse = \<open>\<lambda>data. None\<close>
      and cnet = \<open>Response 500 []\<close>
      and cerr = \<open>\<lparr>name = ''Error'', message = ''Failed to get response'', detail = None\<rparr>\<close>
      and storage = Map.empty]
  by (simp add: trim_def is_js_space_def userMessage_def assistantMessage_def inference_try_def
      inference_begin_def chat_try_def chat_begin_def response_ok_def startsWith_def slice_def)

text \<open>
  An \<open>error\<close> event inside the chat stream is a different matter: the loop logs it
  and leaves the \<open>for\<close> loop, nothing is thrown, and the text received so far stays
  in the assistant message.
\<close>

lemma chat_error_event_keeps_partial_text:
  \<open>messages (snd (sendMessage
      (\<lambda>data. if data = ''{"choices":[{"delta":{"content":"Hel"}}]}''
              then Some \<lparr>event_error = False, delta_content = Some ''Hel''\<rparr>
              else if data = ''{"error": "engine crashed"}''
              then Some \<lparr>event_error = True, delta_content = None\<rparr> else None)
      Map.empty
      (Response 200
         [Chunk ''data: {"choices":[{"delta":{"content":"Hel"}}]}\<newline>\<newline>'',
          Chunk ''data: {"error": "engine crashed"}\<newline>\<newline>''])
      \<lparr>messages = [], input = ''hi'', isGenerating = False\<rparr>)) =
     [\<lparr>role = ''user'', msg_content = ''hi''\<rparr>, \<lparr>role = ''assistant'', msg_content = ''Hel''\<rparr>]\<close>
  by (simp add: sendMessage_def trim_def is_js_space_def userMessage_def assistantMessage_def
      chat_try_def chat_begin_def chat_catch_def response_ok_def append_content_def
      update_last_def startsWith_def slice_def)



section \<open>Properties: the inference page and host capability\<close>

text \<open>
  C3, as stated, fails on a capable host. The inference service streams a reply to a
  send, so the host can run the model; the page rendered in the state after that
  reply still has its text area and Send button disabled, with no send handler.
\<close>

theorem controls_disabled_on_capable_host:
  \<open>inf_messages (snd (handleSendMessage
      (\<lambda>data. if data = ''{"token": "Hello"}'' then Event None False (Some ''Hello'')
              else if data = ''{"done": true}'' then Event None True None else Invalid_json)
      (Response 200
         [Chunk ''data: {"token": "Hello"}\<newline>\<newline>'', Chunk ''data: {"done": true}\<newline>\<newline>''])
      \<lparr>models = [], selectedModel = ''sft/d12'', loading = False, error = [],
       inf_messages = [], inputText = ''hi'', inf_isGenerating = False\<rparr>)) =
     [\<lparr>role = ''user'', msg_content = ''hi''\<rparr>, \<lparr>role = ''assistant'', msg_content = ''Hello''\<rparr>] \<and>
   textarea_disabled (input_controls (InferencePage (snd (handleSendMessage
      (\<lambda>data. if data = ''{"token": "Hello"}'' then Event None False (Some ''Hello'')
              else if data = ''{"done": true}'' then Event None True None else Invalid_json)
      (Response 200
         [Chunk ''data: {"token": "Hello"}\<newline>\<newline>'', Chunk ''data: {"done": true}\<newline>\<newline>''])
      \<lparr>models = [], selectedModel = ''sft/d12'', loading = False, error = [],
       inf_messages = [], inputText = ''hi'', inf_isGenerating = False\<rparr>)))) \<and>
   send_disabled (input_controls (InferencePage (snd (handleSendMessage
      (\<lambda>data. if data = ''{"token": "Hello"}'' then Event None False (Some ''Hello'')
              else if data = ''{"done": true}'' then Event None True None else Invalid_json)
      (Response 200
         [Chunk ''data: {"token": "Hello"}\<newline>\<newline>'', Chunk ''data: {"done": true}\<newline>\<newline>''])
      \<lparr>models = [], selectedModel = ''sft/d12'', loading = False, error = [],
       inf_messages = [], inputText = ''hi'', inf_isGenerating = False\<rparr>)))) \<and>
   \<not> send_handler (input_controls (InferencePage (snd (handleSendMessage
      (\<lambda>data. if data = ''{"token": "Hello"}'' then Event None False (Some ''Hello'')
              else if data = ''{"done": true}'' then Event None True None else Invalid_json)
      (Response 200
         [Chunk ''data: {"token": "Hello"}\<newline>\<newline>'', Chunk ''data: {"done": true}\<newline>\<newline>''])
      \<lparr>models = [], selectedModel = ''sft/d12'', loading = False, error = [],
       inf_messages = [], inputText = ''hi'', inf_isGenerating = False\<rparr>))))\<close>
  by (simp add: handleSendMessage_def trim_def is_js_space_def userMessage_def
      assistantMessage_def inference_try_def inference_begin_def response_ok_def
      startsWith_def slice_def InferencePage_def)

lemma includes_503: "includes_str (''HTTP error! status: '' @ string_of_nat 503) ''503''"
  by code_simp

text \<open>
  C3, amended. In every state, on any host, the inference page renders its text area
  and its Send button disabled, with no control that calls the send handler, next to
  the notice with the three command lines of the command-line fallback. The send
  handler itself dispatches exactly when it is called with a non-blank input, a
  selected model and no generation under way (otherwise it returns and changes
  nothing): then it sends the request to the inference chat endpoint with the
  selected model; when the answer has status 503 it sets the error text to the
  explanation with the command-line fallback, which the page displays, and takes the
  placeholder out of the message list.
\<close>

theorem inference_page_disabled:
  "textarea_disabled (input_controls (InferencePage st)) \<and>
   send_disabled (input_controls (InferencePage st)) \<and>
   \<not> send_handler (input_controls (InferencePage st)) \<and>
   disabled_notice (input_controls (InferencePage st)) =
     [''$ cd /var/www/gpt2/nanochat'', ''$ source .venv/bin/activate'',
      ''$ python -m scripts.chat_cli -i sft''] \<and>
   (trim (inputText st) = [] \<or> selectedModel st = [] \<or> inf_isGenerating st \<longrightarrow>
      handleSendMessage parse net st = (None, st)) \<and>
   (trim (inputText st) \<noteq> [] \<and> selectedModel st \<noteq> [] \<and> \<not> inf_isGenerating st \<longrightarrow>
      fst (handleSendMessage parse net st) =
        Some (inference_fetch, inf_messages st @ [userMessage (inputText st)], selectedModel st) \<and>
      error (snd (handleSendMessage parse (Response 503 body) st)) = unsupported_text \<and>
      error_banner (InferencePage (snd (handleSendMessage parse (Response 503 body) st))) =
        Some unsupported_text \<and>
      inf_messages (snd (handleSendMessage parse (Response 503 body) st)) =
        inf_messages st @ [userMessage (inputText st)])"
proof -
  have view: "textarea_disabled (input_controls (InferencePage st)) \<and>
   send_disabled (input_controls (InferencePage st)) \<and>
   \<not> send_handler (input_controls (InferencePage st)) \<and>
   disabled_notice (input_controls (InferencePage st)) =
     [''$ cd /var/www/gpt2/nanochat'', ''$ source .venv/bin/activate'',
      ''$ python -m scripts.chat_cli -i sft'']"
    by (simp add: InferencePage_def)
  have ne: "unsupported_text \<noteq> []" by (simp add: unsupported_text_def)
  have idle: "handleSendMessage parse net st = (None, st)"
    if "trim (inputText st) = [] \<or> selectedModel st = [] \<or> inf_isGenerating st"
    using that by (auto simp: handleSendMessage_def)
  have send: "fst (handleSendMessage parse net st) =
        Some (inference_fetch, inf_messages st @ [userMessage (inputText st)], selectedModel st)"
    if "trim (inputText st) \<noteq> [] \<and> selectedModel st \<noteq> [] \<and> \<not> inf_isGenerating st"
    using that by (simp add: handleSendMessage_def Let_def split: prod.splits)
  have fail: "snd (handleSendMessage parse (Response 503 body) st) =
      (inference_begin st)\<lparr>error := unsupported_text,
         inf_messages := inf_messages st @ [userMessage (inputText st)],
         inf_isGenerating := False\<rparr>"
    if "trim (inputText st) \<noteq> [] \<and> selectedModel st \<noteq> [] \<and> \<not> inf_isGenerating st"
    using that includes_503
    by (simp add: handleSendMessage_def Let_def inference_try_def response_ok_def
          inference_catch_def)
  show ?thesis
    using view idle send fail ne by (simp add: InferencePage_def)
qed

theorem inference_page_disabled_witness:
  "(error (snd (handleSendMessage (\<lambda>data. Invalid_json) (Response 503 [])
      \<lparr>models = [], selectedModel = ''sft/d12'', loading = False, error = [],
       inf_messages = [], inputText = ''hi'', inf_isGenerating = False\<rparr>)) = unsupported_text \<and>
   inf_messages (snd (handleSendMessage (\<lambda>data. Invalid_json) (Response 503 [])
      \<lparr>models = [], selectedModel = ''sft/d12'', loading = False, error = [],
       inf_messages = [], inputText = ''hi'', inf_isGenerating = False\<rparr>)) =
     [\<lparr>role = ''user'', msg_content = ''hi''\<rparr>] \<and>
   textarea_disabled (input_controls (InferencePage
      \<lparr>models = [], selectedModel = ''sft/d12'', loading = False, error = [],
       inf_messages = [], inputText = ''hi'', inf_isGenerating = False\<rparr>))) \<and>
   handleSendMessage (\<lambda>data. Invalid_json) (Response 200 [])
      \<lparr>models = [], selectedModel = ''sft/d12'', loading = False, error = [],
       inf_messages = [], inputText = ''hi'', inf_isGenerating = True\<rparr> =
     (None, \<lparr>models = [], selectedModel = ''sft/d12'', loading = False, error = [],
       inf_messages = [], inputText = ''hi'', inf_isGenerating = True\<rparr>)"
proof (rule conjI)
  show "error (snd (handleSendMessage (\<lambda>data. Invalid_json) (Response 503 [])
      \<lparr>models = [], selectedModel = ''sft/d12'', loading = False, error = [],
       inf_messages = [], inputText = ''hi'', inf_isGenerating = False\<rparr>)) = unsupported_text \<and>
   inf_messages (snd (handleSendMessage (\<lambda>data. Invalid_json) (Response 503 [])
      \<lparr>models = [], selectedModel = ''sft/d12'', loading = False, error = [],
       inf_messages = [], inputText = ''hi'', inf_isGenerating = False\<rparr>)) =
     [\<lparr>role = ''user'', msg_content = ''hi''\<rparr>] \<and>
   textarea_disabled (input_controls (InferencePage
      \<lparr>models = [], selectedModel = ''sft/d12'', loading = False, error = [],
       inf_messages = [], inputText = ''hi'', inf_isGenerating = False\<rparr>))"
    using inference_page_disabled [where
      st = "\<lparr>models = [], selectedModel = ''sft/d12'', loading = False, error = [],
       inf_messages = [], inputText = ''hi'', inf_isGenerating = False\<rparr>"
      and parse = "\<lambda>data. Invalid_json" and body = "[]" and net = "Response 503 []"]
    by (simp add: trim_def is_js_space_def userMessage_def)
next
  show "handleSendMessage (\<lambda>data. Invalid_json) (Response 200 [])
      \<lparr>models = [], selectedModel = ''sft/d12'', loading = False, error = [],
       inf_messages = [], inputText = ''hi'', inf_isGenerating = True\<rparr> =
     (None, \<lparr>models = [], selectedModel = ''sft/d12'', loading = False, error = [],
       inf_messages = [], inputText = ''hi'', inf_isGenerating = True\<rparr>)"
    using inference_page_disabled [where
      st = "\<lparr>models = [], selectedModel = ''sft/d12'', loading = False, error = [],
       inf_messages = [], inputText = ''hi'', inf_isGenerating = True\<rparr>"
      and parse = "\<lambda>data. Invalid_json" and net = "Response 200 []"]
    by simp
qed


section \<open>Properties: reassembling the chat stream\<close>

text \<open>
  Splitting at a separator: the result is never empty, its pieces hold no separator,
  and the split of a concatenation is the split of its first part, whose last piece
  is continued by the second part. This is what keeping the last piece as the buffer
  relies on.
\<close>

lemma split_not_Nil: "split s sep \<noteq> []"
  by (induction s) (auto split: list.splits)

lemma split_line: "sep \<notin> set l \<Longrightarrow> split (l @ sep # rest) sep = l # split rest sep"
  by (induction l) auto

lemma split_no_sep: "sep \<notin> set l \<Longrightarrow> split l sep = [l]"
  by (induction l) auto

lemma split_pieces: "l \<in> set (split s sep) \<Longrightarrow> sep \<notin> set l"
proof (induction s arbitrary: l)
  case Nil
  then show ?case by simp
next
  case (Cons c s)
  obtain p ps where sp: "split s sep = p # ps"
    using split_not_Nil [of s sep] by (cases "split s sep") auto
  with Cons show ?case by (auto split: if_splits)
qed

lemma split_append:
  "split (a @ b) sep = butlast (split a sep) @ split (last (split a sep) @ b) sep"
proof (induction a)
  case Nil
  then show ?case by simp
next
  case (Cons c a)
  obtain p ps where sp: "split a sep = p # ps"
    using split_not_Nil [of a sep] by (cases "split a sep") auto
  obtain q qs where sq: "split (last (split a sep) @ b) sep = q # qs"
    using split_not_Nil [of "last (split a sep) @ b" sep]
    by (cases "split (last (split a sep) @ b) sep") auto
  show ?case
  proof (cases "c = sep")
    case True
    then show ?thesis using Cons sp by simp
  next
    case False
    show ?thesis
    proof (cases ps)
      case Nil
      with False Cons sp sq show ?thesis by simp
    next
      case (Cons r rs)
      with False Cons.IH sp sq show ?thesis by simp
    qed
  qed
qed


lemma append_content_Nil: "append_content [] ms = ms"
  by (simp add: append_content_def update_last_def)

lemma append_content_append:
  "append_content b (append_content a ms) = append_content (a @ b) ms"
  by (simp add: append_content_def update_last_def)

lemma chat_lines_step:
  "\<not> stops parse line \<Longrightarrow>
   chat_lines parse (line # ls) st =
     chat_lines parse ls (st\<lparr>messages := append_content (delta parse line) (messages st)\<rparr>)"
  by (auto simp: stops_def delta_def Let_def append_content_Nil split: option.splits)

lemma chat_lines_going:
  "\<forall>l \<in> set ls. \<not> stops parse l \<Longrightarrow>
   chat_lines parse (ls @ others) st =
     chat_lines parse others
       (st\<lparr>messages := append_content (concat (map (delta parse) ls)) (messages st)\<rparr>)"
proof (induction ls arbitrary: st)
  case Nil
  then show ?case by (simp add: append_content_Nil)
next
  case (Cons l ls)
  then have "\<not> stops parse l" and rest: "\<forall>l \<in> set ls. \<not> stops parse l" by simp_all
  then show ?case
    using Cons.IH [OF rest]
    by (simp del: chat_lines.simps(2) add: chat_lines_step append_content_append)
qed

lemma chat_lines_stop:
  "stops parse d \<Longrightarrow>
   messages (chat_lines parse (d # q) st) = messages st \<and>
   input (chat_lines parse (d # q) st) = input st"
  by (auto simp: stops_def Let_def split: option.splits)

lemma chat_lines_messages:
  assumes "\<forall>l \<in> set a. \<not> stops parse l"
    and "tl_part = [] \<or> (\<exists>d q. tl_part = d # q \<and> stops parse d)"
  shows "messages (chat_lines parse (a @ tl_part) st) =
           append_content (concat (map (delta parse) a)) (messages st) \<and>
         input (chat_lines parse (a @ tl_part) st) = input st"
proof (cases "tl_part = []")
  case True
  then show ?thesis
    using chat_lines_going [OF assms(1), of "[]" st] by simp
next
  case False
  with assms(2) obtain d q where tl: "tl_part = d # q" and d: "stops parse d" by auto
  let ?st = "st\<lparr>messages := append_content (concat (map (delta parse) a)) (messages st)\<rparr>"
  have "chat_lines parse (a @ d # q) st = chat_lines parse (d # q) ?st"
    by (rule chat_lines_going [OF assms(1)])
  then show ?thesis
    using chat_lines_stop [OF d, of q ?st] by (simp del: chat_lines.simps add: tl)
qed


lemma concat_deltas_quiet:
  "\<forall>l \<in> set q. delta parse l = [] \<Longrightarrow> concat (map (delta parse) q) = []"
  by (induction q) auto

lemma chat_reads_lines:
  assumes "CHR 0x0A \<notin> set b"
    and "butlast (split (b @ concat vs) CHR 0x0A) = a @ d"
    and "\<forall>l \<in> set a. \<not> stops parse l"
    and "d = [] \<or> (\<exists>x q. d = x # q \<and> stops parse x \<and>
                      (\<forall>l \<in> set q. \<not> stops parse l \<and> delta parse l = []))"
  shows "\<exists>st'. chat_reads parse (map Chunk vs) b st = (None, st') \<and>
               messages st' = append_content (concat (map (delta parse) a)) (messages st) \<and>
               input st' = input st"
  using assms
proof (induction vs arbitrary: b st a d)
  case Nil
  then have "a = []" by (simp add: split_no_sep)
  then show ?case by (simp add: append_content_Nil)
next
  case (Cons v vs)
  let ?lines = "split (b @ v) CHR 0x0A"
  let ?p = "butlast ?lines"
  let ?b = "last ?lines"
  let ?s = "butlast (split (?b @ concat vs) CHR 0x0A)"
  let ?st = "chat_lines parse ?p st"
  have nl: "CHR 0x0A \<notin> set ?b"
    using split_pieces [of ?b "b @ v" "CHR 0x0A"] split_not_Nil [of "b @ v" "CHR 0x0A"]
    by simp
  have "split (b @ concat (v # vs)) CHR 0x0A = ?p @ split (?b @ concat vs) CHR 0x0A"
    using split_append [of "b @ v" "concat vs" "CHR 0x0A"] by simp
  then have "butlast (split (b @ concat (v # vs)) CHR 0x0A) = ?p @ ?s"
    using split_not_Nil [of "?b @ concat vs" "CHR 0x0A"] by (simp add: butlast_append)
  with Cons.prems(2) have "?p @ ?s = a @ d" by simp
  then obtain ws where ws: "?p = a @ ws \<and> ws @ ?s = d \<or> ?p @ ws = a \<and> ?s = ws @ d"
    unfolding append_eq_append_conv2 by blast
  have "(\<exists>us. ?p = a @ us \<and> us \<noteq> [] \<and> us @ ?s = d) \<or> (\<exists>us. ?p @ us = a \<and> ?s = us @ d)"
  proof (cases "ws = []")
    case True
    with ws have "?p @ [] = a \<and> ?s = [] @ d" by auto
    then show ?thesis by blast
  next
    case False
    with ws show ?thesis by blast
  qed
  then consider (halted) us where "?p = a @ us" "us \<noteq> []" "us @ ?s = d"
    | (going) us where "?p @ us = a" "?s = us @ d"
    by blast
  then have "\<exists>st'. chat_reads parse (map Chunk vs) ?b ?st = (None, st') \<and>
      messages st' = append_content (concat (map (delta parse) a)) (messages st) \<and>
      input st' = input st"
  proof cases
    case going
    from going(1) Cons.prems(3) have p: "\<forall>l \<in> set ?p. \<not> stops parse l"
      and us: "\<forall>l \<in> set us. \<not> stops parse l" by auto
    have m1: "messages ?st = append_content (concat (map (delta parse) ?p)) (messages st)"
      and i1: "input ?st = input st"
      using chat_lines_messages [OF p, of "[]" st] by simp_all
    from Cons.IH [OF nl going(2) us Cons.prems(4), of ?st]
    obtain st' where "chat_reads parse (map Chunk vs) ?b ?st = (None, st')"
      and "messages st' = append_content (concat (map (delta parse) us)) (messages ?st)"
      and "input st' = input ?st" by blast
    moreover have "concat (map (delta parse) a) =
        concat (map (delta parse) ?p) @ concat (map (delta parse) us)"
      using going(1) [symmetric] by simp
    ultimately show ?thesis
      using m1 i1 by (simp add: append_content_append)
  next
    case halted
    from halted Cons.prems(4) obtain x q where d: "d = x # q" and x: "stops parse x"
      and q: "\<forall>l \<in> set q. \<not> stops parse l \<and> delta parse l = []" by auto
    from halted(2,3) d obtain q1 where us: "us = x # q1" and q1: "q = q1 @ ?s"
      by (cases us) auto
    have m1: "messages ?st = append_content (concat (map (delta parse) a)) (messages st)"
      and i1: "input ?st = input st"
      using chat_lines_messages [OF Cons.prems(3), where tl_part = us and st = st] us x halted(1) by simp_all
    from q q1 have s: "\<forall>l \<in> set ?s. \<not> stops parse l" and sq: "\<forall>l \<in> set ?s. delta parse l = []"
      by auto
    have split_s: "?s = ?s @ []" by simp
    from Cons.IH [OF nl split_s s, of ?st]
    obtain st' where "chat_reads parse (map Chunk vs) ?b ?st = (None, st')"
      and "messages st' = append_content (concat (map (delta parse) ?s)) (messages ?st)"
      and "input st' = input ?st" by blast
    then show ?thesis
      using m1 i1 concat_deltas_quiet [OF sq] by (simp add: append_content_Nil)
  qed
  then show ?case by (simp add: Let_def)
qed


lemma split_frames:
  assumes "\<forall>c \<in> set cs. CHR 0x0A \<notin> set (enc c)"
  shows "split (concat (map (\<lambda>c. sse_frame (enc c)) cs) @ t) CHR 0x0A =
           concat (map (\<lambda>c. [''data: '' @ enc c, []]) cs) @ split t CHR 0x0A"
  using assms
proof (induction cs)
  case Nil
  then show ?case by simp
next
  case (Cons c cs)
  let ?rest = "concat (map (\<lambda>c. sse_frame (enc c)) cs) @ t"
  from Cons.prems have "CHR 0x0A \<notin> set (''data: '' @ enc c)" by simp
  from split_line [OF this, of "CHR 0x0A # ?rest"]
  have "split (sse_frame (enc c) @ ?rest) CHR 0x0A = (''data: '' @ enc c) # [] # split ?rest CHR 0x0A"
    by (simp add: sse_frame_def)
  with Cons show ?case by simp
qed

lemma lines_chat_stream:
  assumes "\<forall>c \<in> set cs. CHR 0x0A \<notin> set (enc c)"
  shows "butlast (split (chat_stream enc cs) CHR 0x0A) =
           concat (map (\<lambda>c. [''data: '' @ enc c, []]) cs) @ [''data: [DONE]'', []]"
proof -
  have "split (sse_frame ''[DONE]'') CHR 0x0A = [''data: [DONE]'', [], []]"
    by (simp add: sse_frame_def)
  with split_frames [OF assms, of "sse_frame ''[DONE]''"] show ?thesis
    by (simp add: chat_stream_def butlast_append)
qed

lemma frame_lines_go:
  assumes "\<forall>c \<in> set cs. parse (enc c) = Some \<lparr>event_error = False, delta_content = Some c\<rparr> \<and>
                          enc c \<noteq> ''[DONE]''"
  shows "\<forall>l \<in> set (concat (map (\<lambda>c. [''data: '' @ enc c, []]) cs)). \<not> stops parse l"
  using assms by (auto simp: stops_def startsWith_def slice_def)

lemma frame_lines_deltas:
  assumes "\<forall>c \<in> set cs. parse (enc c) = Some \<lparr>event_error = False, delta_content = Some c\<rparr>"
  shows "concat (map (delta parse) (concat (map (\<lambda>c. [''data: '' @ enc c, []]) cs))) = concat cs"
  using assms by (induction cs) (auto simp: delta_def startsWith_def slice_def)

lemma done_line_stops:
  "stops parse ''data: [DONE]'' \<and> \<not> stops parse [] \<and> delta parse [] = []"
  by (simp add: stops_def delta_def startsWith_def slice_def)

lemma chat_reads_stream:
  assumes enc: "\<forall>c \<in> set cs. parse (enc c) = Some \<lparr>event_error = False, delta_content = Some c\<rparr> \<and>
                               CHR 0x0A \<notin> set (enc c) \<and> enc c \<noteq> ''[DONE]''"
    and frag: "concat chunks = chat_stream enc cs"
  shows "\<exists>st'. chat_reads parse (map Chunk chunks) [] st = (None, st') \<and>
               messages st' = append_content (concat cs) (messages st) \<and> input st' = input st"
proof -
  let ?a = "concat (map (\<lambda>c. [''data: '' @ enc c, []]) cs)"
  have nl: "\<forall>c \<in> set cs. CHR 0x0A \<notin> set (enc c)" using enc by simp
  have go: "\<forall>l \<in> set ?a. \<not> stops parse l"
    using frame_lines_go [of cs parse enc] enc by simp
  have lines: "butlast (split ([] @ concat chunks) CHR 0x0A) = ?a @ [''data: [DONE]'', []]"
    using lines_chat_stream [OF nl] frag by simp
  have tail: "[''data: [DONE]'', []] = [] \<or>
      (\<exists>x q. [''data: [DONE]'', []] = x # q \<and> stops parse x \<and>
             (\<forall>l \<in> set q. \<not> stops parse l \<and> delta parse l = []))"
    using done_line_stops [of parse] by simp
  have "CHR 0x0A \<notin> set ([] :: string)" by simp
  from chat_reads_lines [OF this lines go tail, of st]
  show ?thesis using frame_lines_deltas [of cs parse enc] enc by simp
qed


text \<open>
  C1. The chat completion stream for the delta chunks \<open>cs\<close> (one frame per chunk,
  then the end-of-stream sentinel) may arrive cut into network reads at any places
  (\<open>chunks\<close>). With a parser that reads each frame's payload as its delta chunk,
  \<open>sendMessage\<close> leaves the message list as the earlier messages, the user message
  and one assistant message whose text is the concatenation of the chunks in order;
  and the request of the next send, after the user has typed its text, carries that
  list, with the reconstructed assistant message unchanged, followed by the new user
  message.
\<close>

theorem chat_reassembly:
  assumes enc: "\<forall>c \<in> set cs. parse (enc c) = Some \<lparr>event_error = False, delta_content = Some c\<rparr> \<and>
                               CHR 0x0A \<notin> set (enc c) \<and> enc c \<noteq> ''[DONE]''"
    and frag: "concat chunks = chat_stream enc cs"
    and ok: "response_ok http_status"
    and ready: "trim (input st) \<noteq> [] \<and> \<not> isGenerating st"
    and again: "trim typed \<noteq> []"
  shows "sendMessage parse storage (Response http_status (map Chunk chunks)) st =
           (Some (chat_fetch storage, messages st @ [userMessage (input st)]),
            \<lparr>messages = messages st @ [userMessage (input st),
                           \<lparr>role = ''assistant'', msg_content = concat cs\<rparr>],
             input = [], isGenerating = False\<rparr>) \<and>
         fst (sendMessage parse' storage' net'
                (setInput typed (snd (sendMessage parse storage (Response http_status (map Chunk chunks)) st)))) =
           Some (chat_fetch storage',
                 messages st @ [userMessage (input st), \<lparr>role = ''assistant'', msg_content = concat cs\<rparr>,
                                userMessage typed])"
proof -
  from chat_reads_stream [OF enc frag, of "chat_begin st"]
  obtain st' where run: "chat_reads parse (map Chunk chunks) [] (chat_begin st) = (None, st')"
    and m: "messages st' = append_content (concat cs) (messages (chat_begin st))"
    and i: "input st' = input (chat_begin st)" by blast
  have m': "messages st' = messages st @ [userMessage (input st), \<lparr>role = ''assistant'', msg_content = concat cs\<rparr>]"
    using m by (simp add: chat_begin_def assistantMessage_def append_content_def update_last_snoc2)
  have i': "input st' = []" using i by (simp add: chat_begin_def)
  have first: "sendMessage parse storage (Response http_status (map Chunk chunks)) st =
           (Some (chat_fetch storage, messages st @ [userMessage (input st)]),
            \<lparr>messages = messages st @ [userMessage (input st),
                           \<lparr>role = ''assistant'', msg_content = concat cs\<rparr>],
             input = [], isGenerating = False\<rparr>)"
    using ready ok run m' i'
    by (cases st') (simp add: sendMessage_def chat_try_def Let_def)
  show ?thesis
    unfolding first using again
    by (simp add: setInput_def sendMessage_def Let_def split: prod.splits)
qed


theorem chat_reassembly_witness:
  \<open>messages (snd (sendMessage
      (\<lambda>data. if data = ''{"choices":[{"delta":{"content":"Hel"}}]}''
              then Some \<lparr>event_error = False, delta_content = Some ''Hel''\<rparr>
              else if data = ''{"choices":[{"delta":{"content":"lo"}}]}''
              then Some \<lparr>event_error = False, delta_content = Some ''lo''\<rparr>
              else if data = ''{"choices":[{"delta":{"content":" world"}}]}''
              then Some \<lparr>event_error = False, delta_content = Some '' world''\<rparr>
              else None)
      [''token'' \<mapsto> ''tok'']
      (Response 200 (map Chunk
         [''data: {"choices":[{"delta":{"content":"Hel"}}]}\<newline>\<newline>data: {"cho'',
          ''ices":[{"delta":{"content":"lo"}}]}\<newline>'',
          ''\<newline>data: {"choices":[{"delta":{"content":" world"}}]}\<newline>\<newline>data: [DONE]\<newline>\<newline>'']))
      \<lparr>messages = [], input = ''Say hello'', isGenerating = False\<rparr>)) =
     [\<lparr>role = ''user'', msg_content = ''Say hello''\<rparr>,
      \<lparr>role = ''assistant'', msg_content = ''Hello world''\<rparr>] \<and>
   fst (sendMessage (\<lambda>data. None) [''token'' \<mapsto> ''tok''] (Response 200 [])
      (setInput ''Thanks'' (snd (sendMessage
      (\<lambda>data. if data = ''{"choices":[{"delta":{"content":"Hel"}}]}''
              then Some \<lparr>event_error = False, delta_content = Some ''Hel''\<rparr>
              else if data = ''{"choices":[{"delta":{"content":"lo"}}]}''
              then Some \<lparr>event_error = False, delta_content = Some ''lo''\<rparr>
              else if data = ''{"choices":[{"delta":{"content":" world"}}]}''
              then Some \<lparr>event_error = False, delta_content = Some '' world''\<rparr>
              else None)
      [''token'' \<mapsto> ''tok'']
      (Response 200 (map Chunk
         [''data: {"choices":[{"delta":{"content":"Hel"}}]}\<newline>\<newline>data: {"cho'',
          ''ices":[{"delta":{"content":"lo"}}]}\<newline>'',
          ''\<newline>data: {"choices":[{"delta":{"content":" world"}}]}\<newline>\<newline>data: [DONE]\<newline>\<newline>'']))
      \<lparr>messages = [], input = ''Say hello'', isGenerating = False\<rparr>)))) =
     Some (chat_fetch [''token'' \<mapsto> ''tok''],
           [\<lparr>role = ''user'', msg_content = ''Say hello''\<rparr>,
            \<lparr>role = ''assistant'', msg_content = ''Hello world''\<rparr>,
            \<lparr>role = ''user'', msg_content = ''Thanks''\<rparr>])\<close>
proof -
  note run = chat_reassembly [where
      cs = \<open>[''Hel'', ''lo'', '' world'']\<close>
      and enc = \<open>\<lambda>c. ''{"choices":[{"delta":{"content":"'' @ c @ ''"}}]}''\<close>
      and parse = \<open>(\<lambda>data. if data = ''{"choices":[{"delta":{"content":"Hel"}}]}''
              then Some \<lparr>event_error = False, delta_content = Some ''Hel''\<rparr>
              else if data = ''{"choices":[{"delta":{"content":"lo"}}]}''
              then Some \<lparr>event_error = False, delta_content = Some ''lo''\<rparr>
              else if data = ''{"choices":[{"delta":{"content":" world"}}]}''
              then Some \<lparr>event_error = False, delta_content = Some '' world''\<rparr>
              else None)\<close>
      and chunks = \<open>[''data: {"choices":[{"delta":{"content":"Hel"}}]}\<newline>\<newline>data: {"cho'',
          ''ices":[{"delta":{"content":"lo"}}]}\<newline>'',
          ''\<newline>data: {"choices":[{"delta":{"content":" world"}}]}\<newline>\<newline>data: [DONE]\<newline>\<newline>'']\<close>
      and http_status = 200
      and st = \<open>\<lparr>messages = [], input = ''Say hello'', isGenerating = False\<rparr>\<close>
      and typed = \<open>''Thanks''\<close>
      and storage = \<open>[''token'' \<mapsto> ''tok'']\<close>
      and parse' = \<open>\<lambda>data. None\<close>
      and storage' = \<open>[''token'' \<mapsto> ''tok'']\<close>
      and net' = \<open>Response 200 []\<close>]
  have reply: \<open>messages (snd (sendMessage
      (\<lambda>data. if data = ''{"choices":[{"delta":{"content":"Hel"}}]}''
              then Some \<lparr>event_error = False, delta_content = Some ''Hel''\<rparr>
              else if data = ''{"choices":[{"delta":{"content":"lo"}}]}''
              then Some \<lparr>event_error = False, delta_content = Some ''lo''\<rparr>
              else if data = ''{"choices":[{"delta":{"content":" world"}}]}''
              then Some \<lparr>event_error = False, delta_content = Some '' world''\<rparr>
              else None)
      [''token'' \<mapsto> ''tok'']
      (Response 200 (map Chunk
         [''data: {"choices":[{"delta":{"content":"Hel"}}]}\<newline>\<newline>data: {"cho'',
          ''ices":[{"delta":{"content":"lo"}}]}\<newline>'',
          ''\<newline>data: {"choices":[{"delta":{"content":" world"}}]}\<newline>\<newline>data: [DONE]\<newline>\<newline>'']))
      \<lparr>messages = [], input = ''Say hello'', isGenerating = False\<rparr>)) =
     [\<lparr>role = ''user'', msg_content = ''Say hello''\<rparr>,
      \<lparr>role = ''assistant'', msg_content = ''Hello world''\<rparr>]\<close>
    using run [THEN conjunct1]
    by (simp add: chat_stream_def sse_frame_def response_ok_def trim_def is_js_space_def
        userMessage_def)
  have again: \<open>fst (sendMessage (\<lambda>data. None) [''token'' \<mapsto> ''tok''] (Response 200 [])
      (setInput ''Thanks'' (snd (sendMessage
      (\<lambda>data. if data = ''{"choices":[{"delta":{"content":"Hel"}}]}''
              then Some \<lparr>event_error = False, delta_content = Some ''Hel''\<rparr>
              else if data = ''{"choices":[{"delta":{"content":"lo"}}]}''
              then Some \<lparr>event_error = False, delta_content = Some ''lo''\<rparr>
              else if data = ''{"choices":[{"delta":{"content":" world"}}]}''
              then Some \<lparr>event_error = False, delta_content = Some '' world''\<rparr>
              else None)
      [''token'' \<mapsto> ''tok'']
      (Response 200 (map Chunk
         [''data: {"choices":[{"delta":{"content":"Hel"}}]}\<newline>\<newline>data: {"cho'',
          ''ices":[{"delta":{"content":"lo"}}]}\<newline>'',
          ''\<newline>data: {"choices":[{"delta":{"content":" world"}}]}\<newline>\<newline>data: [DONE]\<newline>\<newline>'']))
      \<lparr>messages = [], input = ''Say hello'', isGenerating = False\<rparr>)))) =
     Some (chat_fetch [''token'' \<mapsto> ''tok''],
           [\<lparr>role = ''user'', msg_content = ''Say hello''\<rparr>,
            \<lparr>role = ''assistant'', msg_content = ''Hello world''\<rparr>,
            \<lparr>role = ''user'', msg_content = ''Thanks''\<rparr>])\<close>
    using run [THEN conjunct2]
    by (simp add: chat_stream_def sse_frame_def response_ok_def trim_def is_js_space_def
        userMessage_def)
  from reply again show ?thesis by (rule conjI)
qed


end
